theory Spec2Isabelle
  imports Complex_Main
begin

section \<open>Data model: the Mongoose schemas of backend/server.js\<close>

text \<open>
  A stored ObjectId is modelled by its canonical text, what \<^verbatim>\<open>toString()\<close> yields:
  24 lower-case hex digits. A JavaScript Number is a \<^typ>\<open>real\<close> for prices, ratings
  and amounts and an \<^typ>\<open>int\<close> for the quantities of order lines; the quantity of a
  cart entry, which the server adds to, is a \<open>number\<close>. Strings are ASCII strings.
\<close>

type_synonym objid = string

text \<open>
  The values of a JavaScript Number: the finite ones, the two infinities and NaN. The
  type carries numerals (\<open>2\<close> is \<open>Fin 2\<close>) and the exact sum; the sum the
  language computes rounds it (\<open>js_add\<close> below).
\<close>

datatype number = Fin real | PosInf | NegInf | NaN

instantiation number :: numeral
begin

definition one_number :: number where
  "one_number = Fin 1"

fun plus_number :: "number \<Rightarrow> number \<Rightarrow> number" where
  "plus_number (Fin x) (Fin y) = Fin (x + y)"
| "plus_number NaN b = NaN"
| "plus_number a NaN = NaN"
| "plus_number PosInf NegInf = NaN"
| "plus_number NegInf PosInf = NaN"
| "plus_number PosInf b = PosInf"
| "plus_number a PosInf = PosInf"
| "plus_number NegInf b = NegInf"
| "plus_number a NegInf = NegInf"

instance
proof
  fix a b c :: number
  show "a + b + c = a + (b + c)"
    by (cases a; cases b; cases c) simp_all
qed

end

text \<open>
  \<^verbatim>\<open>a + b\<close> on two Numbers: \<open>rnd\<close> is the rounding of an exact real to the nearest
  double, an infinity when the real lies beyond the largest double.
\<close>

fun js_add :: "(real \<Rightarrow> number) \<Rightarrow> number \<Rightarrow> number \<Rightarrow> number" where
  "js_add rnd (Fin x) (Fin y) = rnd (x + y)"
| "js_add rnd a b = a + b"

record product =
  p_id :: objid
  p_name :: string
  p_price :: real
  p_category :: string
  p_description :: string
  p_image :: string
  p_size :: string
  p_brand :: string
  p_rating :: "real option"
  p_color :: string

record cart_item =
  productId :: objid
  quantity :: number

text \<open>
  UserSchema declares exactly the paths below. \<open>u_cart = None\<close> is a stored document
  without a cart array: a hydrated document reads it as the empty array (Mongoose's
  default for array paths), a \<^verbatim>\<open>lean()\<close> read sees it missing.
\<close>

record user =
  u_id :: objid
  u_name :: string
  u_email :: string
  u_password :: string
  u_role :: string
  u_wishlist :: "objid list"
  u_cart :: "cart_item list option"

record order_item =
  oi_productId :: objid
  productName :: string
  productPrice :: real
  oi_quantity :: int

record order =
  o_id :: objid
  userId :: objid
  o_products :: "order_item list"
  totalAmount :: real
  status :: string
  createdAt :: nat

record profile =
  pf_name :: string
  pf_email :: string
  pf_phone :: string
  pf_address :: string

text \<open>The four collections behind the single shared connection.\<close>

record db =
  users :: "user list"
  products :: "product list"
  orders :: "order list"
  profiles :: "profile list"

subsection \<open>Store failures, the environment and responses\<close>

text \<open>
  Every \<^verbatim>\<open>await\<close> on the store may throw. A fault oracle says which awaited store
  call of a request throws: \<open>flt k\<close> for the call with index \<open>k\<close>, counted from 0
  in the order the handler issues them.
\<close>

type_synonym faults = "nat \<Rightarrow> bool"

definition no_faults :: faults where
  "no_faults = (\<lambda>k. False)"

text \<open>
  What a request needs from outside the database: the fault oracle, the id and the time
  a new document gets, bcrypt, the regular expression engine, and what the language and
  the driver compute:
  \<^item> \<open>env_cast\<close>: the driver's cast to an ObjectId of a text that is not 24 hex digits
    (\<open>None\<close> is a CastError; whether any such text is accepted depends on the driver's
    version);
  \<^item> \<open>env_round\<close>: the rounding of an exact real to a double;
  \<^item> \<open>env_to_number\<close>: \<^verbatim>\<open>Number(text)\<close>, and \<open>env_to_string\<close>: the text of a Number;
  \<^item> \<open>env_decode\<close>: \<^verbatim>\<open>decodeURIComponent\<close> (\<open>None\<close> is a URIError).
\<close>

record env =
  env_flt :: faults
  env_fresh :: objid
  env_now :: nat
  env_hash :: "string \<Rightarrow> string"
  env_compare :: "string \<Rightarrow> string \<Rightarrow> bool"
  env_regex :: "string \<Rightarrow> (string \<Rightarrow> bool) option"
  env_cast :: "string \<Rightarrow> objid option"
  env_round :: "real \<Rightarrow> number"
  env_to_number :: "string \<Rightarrow> number"
  env_to_string :: "number \<Rightarrow> string"
  env_decode :: "string \<Rightarrow> string option"

record cart_line =
  cl_id :: objid
  cl_name :: string
  cl_price :: real
  cl_quantity :: number

text \<open>
  The JSON bodies the handlers send. \<open>Failure m\<close> is \<^verbatim>\<open>{success: false, message: m}\<close>
  (no message when \<open>m = None\<close>), \<open>FailureErr\<close> is that object with the thrown error's
  own text as message; the array constructors are bare JSON arrays.
\<close>

datatype body =
    CartArray "cart_line list"
  | ProductArray "product list"
  | ProductDoc product
  | Failure "string option"
  | FailureErr
  | Success
  | SuccessMsg string
  | SuccessRole string
  | LoginOk string "bool option"
  | OrderOk "order option"
  | ProductOk "product option"
  | ProfileOk "string option" profile

type_synonym response = "nat \<times> body"

subsection \<open>Store primitives\<close>

definition findOne :: "user list \<Rightarrow> string \<Rightarrow> user option" where
  "findOne us e = find (\<lambda>u. u_email u = e) us"

definition findById :: "product list \<Rightarrow> objid \<Rightarrow> product option" where
  "findById ps i = find (\<lambda>p. p_id p = i) ps"

text \<open>
  The cast of a request's id text to an ObjectId, in its canonical text: 24 hex digits
  in either case denote the id that prints in lower case; any other text is up to the
  driver.
\<close>

definition hex_digits :: "char list" where
  "hex_digits = ''0123456789abcdefABCDEF''"

definition lower_hex :: "char \<Rightarrow> char" where
  "lower_hex c = (case map_of (zip ''ABCDEF'' ''abcdef'') c of None \<Rightarrow> c | Some l \<Rightarrow> l)"

definition castObjectId :: "(string \<Rightarrow> objid option) \<Rightarrow> string \<Rightarrow> objid option" where
  "castObjectId other s =
     (if length s = 24 \<and> list_all (\<lambda>c. c \<in> set hex_digits) s then Some (map lower_hex s)
      else other s)"

text \<open>\<^verbatim>\<open>updateOne\<close>, and \<^verbatim>\<open>save()\<close> of a loaded document: the first match changes.\<close>

fun update_one :: "('a \<Rightarrow> bool) \<Rightarrow> ('a \<Rightarrow> 'a) \<Rightarrow> 'a list \<Rightarrow> 'a list" where
  "update_one P f [] = []"
| "update_one P f (x # xs) = (if P x then f x # xs else x # update_one P f xs)"

definition cart_of :: "user \<Rightarrow> cart_item list" where
  "cart_of u = (case u_cart u of None \<Rightarrow> [] | Some c \<Rightarrow> c)"

definition save_cart :: "string \<Rightarrow> cart_item list \<Rightarrow> db \<Rightarrow> db" where
  "save_cart e c d = d\<lparr>users := update_one (\<lambda>u. u_email u = e) (\<lambda>u. u\<lparr>u_cart := Some c\<rparr>) (users d)\<rparr>"

section \<open>Cart routes\<close>

text \<open>
  \<^verbatim>\<open>populate("cart.productId")\<close> replaces each stored reference by the product it
  resolves to, or by null.
\<close>

record populated_item =
  pi_product :: "product option"
  pi_quantity :: number

definition populate_cart :: "product list \<Rightarrow> cart_item list \<Rightarrow> populated_item list" where
  "populate_cart ps c =
     map (\<lambda>it. \<lparr>pi_product = findById ps (productId it), pi_quantity = quantity it\<rparr>) c"

text \<open>
  \<^verbatim>\<open>.filter(item => item.productId).map(item => ({_id, name, price, quantity}))\<close>:
  the map reads only items the filter kept, so the two are one pass here.
\<close>

definition cleanedCart :: "populated_item list \<Rightarrow> cart_line list" where
  "cleanedCart c =
     List.map_filter
       (\<lambda>it. case pi_product it of
                None \<Rightarrow> None
              | Some p \<Rightarrow> Some \<lparr>cl_id = p_id p, cl_name = p_name p, cl_price = p_price p,
                                 cl_quantity = pi_quantity it\<rparr>) c"

text \<open>GET /cart/:email. One awaited store call (index 0); the catch block answers 200 [].\<close>

definition get_cart :: "faults \<Rightarrow> db \<Rightarrow> string \<Rightarrow> response" where
  "get_cart flt d e =
     (if flt 0 then (200, CartArray [])
      else case findOne (users d) e of
             None \<Rightarrow> (200, CartArray [])
           | Some u \<Rightarrow>
               (case u_cart u of
                  None \<Rightarrow> (200, CartArray [])
                | Some c \<Rightarrow> (200, CartArray (cleanedCart (populate_cart (products d) c)))))"

text \<open>What a resolvable entry looks like in the response.\<close>

definition resolves :: "product list \<Rightarrow> cart_item \<Rightarrow> bool" where
  "resolves ps it = (findById ps (productId it) \<noteq> None)"

text \<open>
  The \<^verbatim>\<open>quantity\<close> of a request body: absent (or null), a number, a text (a
  form-encoded body delivers every value as text), a boolean, or an array or object,
  given by the text the language converts it to.
\<close>

datatype json_quantity = Absent | JNum number | JStr string | JBool bool | JOther string

definition truthy_quantity :: "json_quantity \<Rightarrow> bool" where
  "truthy_quantity q =
     (case q of
        Absent \<Rightarrow> False
      | JNum n \<Rightarrow> n \<noteq> Fin 0 \<and> n \<noteq> NaN
      | JStr t \<Rightarrow> t \<noteq> []
      | JBool b \<Rightarrow> b
      | JOther t \<Rightarrow> True)"

text \<open>\<^verbatim>\<open>quantity || 1\<close>: an absent quantity, 0, NaN, the empty text and false are falsy.\<close>

definition or_one :: "json_quantity \<Rightarrow> json_quantity" where
  "or_one q = (if truthy_quantity q then q else JNum (Fin 1))"

text \<open>
  \<^verbatim>\<open>existing.quantity += v\<close>: two Numbers are added, and a boolean counts as 1 or 0; a
  text (or the text of an array or object) is appended to the text of the stored Number,
  and the assignment casts the result back (\<^verbatim>\<open>Number(...)\<close>).
\<close>

definition plus_assign :: "env \<Rightarrow> number \<Rightarrow> json_quantity \<Rightarrow> number" where
  "plus_assign ev x v =
     (case v of
        Absent \<Rightarrow> NaN
      | JNum n \<Rightarrow> js_add (env_round ev) x n
      | JStr t \<Rightarrow> env_to_number ev (env_to_string ev x @ t)
      | JBool b \<Rightarrow> js_add (env_round ev) x (Fin (if b then 1 else 0))
      | JOther t \<Rightarrow> env_to_number ev (env_to_string ev x @ t))"

text \<open>
  The cast of the quantity of a pushed entry: the schema's default is 1, a text is read
  as a Number, and an array or object is no Number (NaN stands for the failed cast).
\<close>

definition cast_quantity :: "env \<Rightarrow> json_quantity \<Rightarrow> number" where
  "cast_quantity ev v =
     (case v of
        Absent \<Rightarrow> Fin 1
      | JNum n \<Rightarrow> n
      | JStr t \<Rightarrow> env_to_number ev t
      | JBool b \<Rightarrow> Fin (if b then 1 else 0)
      | JOther t \<Rightarrow> NaN)"

text \<open>
  POST /cart. Store calls: \<^verbatim>\<open>User.findOne\<close> (0), \<^verbatim>\<open>user.save()\<close> (1). \<^verbatim>\<open>find\<close>
  compares the text of each stored id with the request's text and returns the first
  entry that agrees; the increment mutates that entry in place. The pushed entry holds
  the request's text cast to an ObjectId. A value that cannot be cast (an id the driver
  refuses, a quantity that is NaN) makes the save throw. The email and the product id of
  a request are texts.
\<close>

definition add_to_cart :: "env \<Rightarrow> db \<Rightarrow> string \<Rightarrow> string \<Rightarrow> json_quantity \<Rightarrow> response \<times> db" where
  "add_to_cart ev d e p q =
     (if env_flt ev 0 then ((500, Failure None), d)
      else case findOne (users d) e of
             None \<Rightarrow> ((404, Failure (Some ''User not found'')), d)
           | Some u \<Rightarrow>
               (let c' = (case find (\<lambda>it. productId it = p) (cart_of u) of
                            Some existing \<Rightarrow>
                              (let n = plus_assign ev (quantity existing) (or_one q)
                               in if n = NaN then None
                                  else Some (update_one (\<lambda>it. productId it = p)
                                               (\<lambda>it. it\<lparr>quantity := n\<rparr>) (cart_of u)))
                          | None \<Rightarrow>
                              (case castObjectId (env_cast ev) p of
                                 None \<Rightarrow> None
                               | Some i \<Rightarrow>
                                   (let n = cast_quantity ev (or_one q)
                                    in if n = NaN then None
                                       else Some (cart_of u @ [\<lparr>productId = i, quantity = n\<rparr>]))))
                in case c' of
                     None \<Rightarrow> ((500, Failure None), d)
                   | Some c \<Rightarrow>
                       if env_flt ev 1 then ((500, Failure None), d)
                       else ((200, Success), save_cart e c d)))"

text \<open>
  Saving a populated cart stores each entry's product id again. Entries whose product
  is null never reach the save: the filter before it drops them.
\<close>

definition depopulate :: "populated_item list \<Rightarrow> cart_item list" where
  "depopulate c =
     List.map_filter
       (\<lambda>it. case pi_product it of
                None \<Rightarrow> None
              | Some p \<Rightarrow> Some \<lparr>productId = p_id p, quantity = pi_quantity it\<rparr>) c"

text \<open>
  DELETE /cart/remove. Store calls: \<^verbatim>\<open>User.findOne(...).populate(...)\<close> (0),
  \<^verbatim>\<open>user.save()\<close> (1). Every exit answers 200 with an array.
\<close>

definition remove_from_cart :: "faults \<Rightarrow> db \<Rightarrow> string \<Rightarrow> objid \<Rightarrow> response \<times> db" where
  "remove_from_cart flt d e p =
     (if flt 0 then ((200, CartArray []), d)
      else case findOne (users d) e of
             None \<Rightarrow> ((200, CartArray []), d)
           | Some u \<Rightarrow>
               (let kept = filter (\<lambda>it. case pi_product it of
                                            None \<Rightarrow> False
                                          | Some pr \<Rightarrow> p_id pr \<noteq> p)
                                  (populate_cart (products d) (cart_of u))
                in if flt 1 then ((200, CartArray []), d)
                   else ((200, CartArray (cleanedCart kept)), save_cart e (depopulate kept) d)))"

section \<open>Wishlist routes\<close>


text \<open>
  \<^verbatim>\<open>populate("wishlist")\<close> on an array of references keeps the documents that
  resolve and leaves the others out.
\<close>

definition populate_wishlist :: "product list \<Rightarrow> objid list \<Rightarrow> product list" where
  "populate_wishlist ps w = List.map_filter (findById ps) w"

text \<open>GET /wishlist/:email. One store call (0).\<close>

definition get_wishlist :: "faults \<Rightarrow> db \<Rightarrow> string \<Rightarrow> response" where
  "get_wishlist flt d e =
     (if flt 0 then (500, Failure None)
      else case findOne (users d) e of
             None \<Rightarrow> (404, Failure (Some ''User not found''))
           | Some u \<Rightarrow> (200, ProductArray (populate_wishlist (products d) (u_wishlist u))))"

text \<open>
  DELETE /wishlist/remove. Store calls: \<^verbatim>\<open>User.findOne\<close> (0), \<^verbatim>\<open>User.updateOne\<close>
  with \<^verbatim>\<open>$pull\<close> (1), which removes every occurrence of the id.
\<close>

definition remove_from_wishlist :: "faults \<Rightarrow> db \<Rightarrow> string \<Rightarrow> objid \<Rightarrow> response \<times> db" where
  "remove_from_wishlist flt d e p =
     (if flt 0 then ((500, Failure (Some ''Failed to remove from wishlist'')), d)
      else case findOne (users d) e of
             None \<Rightarrow> ((404, Failure (Some ''User not found'')), d)
           | Some u \<Rightarrow>
               if flt 1 then ((500, Failure (Some ''Failed to remove from wishlist'')), d)
               else ((200, SuccessMsg ''Product removed from wishlist''),
                     d\<lparr>users := update_one (\<lambda>u. u_email u = e)
                                   (\<lambda>u. u\<lparr>u_wishlist := removeAll p (u_wishlist u)\<rparr>) (users d)\<rparr>))"


section \<open>Identity routes\<close>

text \<open>
  POST /signup. \<open>bcrypt_hash\<close> stands for \<^verbatim>\<open>bcrypt.hash(password, 10)\<close>. Store calls:
  \<^verbatim>\<open>User.findOne\<close> (0), \<^verbatim>\<open>save()\<close> (1). The save validates the schema (name and
  email are required, and a required string must not be empty) and the store refuses a
  second document with the same id; both throw. An absent role takes the schema's
  default.
\<close>

definition signup ::
  "(string \<Rightarrow> string) \<Rightarrow> faults \<Rightarrow> objid \<Rightarrow> db \<Rightarrow> string \<Rightarrow> string \<Rightarrow> string \<Rightarrow> string \<Rightarrow>
     string option \<Rightarrow> response \<times> db" where
  "signup bcrypt_hash flt fresh d n e pw confirm r =
     (if pw \<noteq> confirm then ((400, Failure (Some ''Passwords do not match'')), d)
      else if flt 0 then ((500, Failure (Some ''Server error'')), d)
      else case findOne (users d) e of
             Some exists \<Rightarrow> ((409, Failure (Some ''Email already exists'')), d)
           | None \<Rightarrow>
               (let newUser = \<lparr>u_id = fresh, u_name = n, u_email = e, u_password = bcrypt_hash pw,
                               u_role = (case r of None \<Rightarrow> ''user'' | Some v \<Rightarrow> v),
                               u_wishlist = [], u_cart = Some []\<rparr>
                in if n = [] \<or> e = [] \<or> flt 1 \<or> find (\<lambda>u. u_id u = fresh) (users d) \<noteq> None
                   then ((500, Failure (Some ''Server error'')), d)
                   else ((200, SuccessRole (u_role newUser)), d\<lparr>users := users d @ [newUser]\<rparr>)))"

text \<open>
  \<^verbatim>\<open>user.isFirstLogin\<close>: UserSchema declares no such path and no route ever stores
  one, so the property read on a loaded user document is undefined.
\<close>

definition isFirstLogin :: "user \<Rightarrow> bool option" where
  "isFirstLogin u = None"

text \<open>
  POST /login. \<open>bcrypt_compare\<close> stands for \<^verbatim>\<open>bcrypt.compare(password, user.password)\<close>.
  Store calls: \<^verbatim>\<open>User.findOne\<close> (0), \<^verbatim>\<open>user.save()\<close> (1, only when the flag is
  truthy). The assignment \<^verbatim>\<open>user.isFirstLogin = false\<close> sets no schema path, so that
  save writes nothing.
\<close>

definition login ::
  "(string \<Rightarrow> string \<Rightarrow> bool) \<Rightarrow> faults \<Rightarrow> db \<Rightarrow> string \<Rightarrow> string \<Rightarrow> string \<Rightarrow> response \<times> db" where
  "login bcrypt_compare flt d e pw r =
     (if flt 0 then ((500, Failure (Some ''Server error'')), d)
      else case findOne (users d) e of
             None \<Rightarrow> ((404, Failure (Some ''User not found'')), d)
           | Some u \<Rightarrow>
               if \<not> bcrypt_compare pw (u_password u)
               then ((401, Failure (Some ''Invalid password'')), d)
               else if u_role u \<noteq> r
               then ((403, Failure (Some (''Incorrect role. Registered as '' @ u_role u))), d)
               else (let isNewUser = isFirstLogin u
                     in if isNewUser = Some True
                        then (if flt 1 then ((500, Failure (Some ''Server error'')), d)
                              else ((200, LoginOk (u_role u) isNewUser), d))
                        else ((200, LoginOk (u_role u) isNewUser), d)))"

section \<open>Profile routes\<close>

definition findProfile :: "profile list \<Rightarrow> string \<Rightarrow> profile option" where
  "findProfile ps e = find (\<lambda>p. pf_email p = e) ps"


text \<open>
  PUT /api/profile/:email. The decoding of the path parameter and the three store
  calls, \<^verbatim>\<open>Profile.findOne\<close> (0), \<^verbatim>\<open>profile.save()\<close> (1) and \<^verbatim>\<open>User.updateOne\<close>
  (2), all stand in one try block, whose catch answers 500. The body's name, phone and
  address are texts.
\<close>

definition put_profile ::
  "env \<Rightarrow> db \<Rightarrow> string \<Rightarrow> string \<Rightarrow> string \<Rightarrow> string \<Rightarrow> response \<times> db" where
  "put_profile ev d param n ph a =
     (case env_decode ev param of
        None \<Rightarrow> ((500, Failure (Some ''Server error'')), d)
      | Some e \<Rightarrow>
          if env_flt ev 0 then ((500, Failure (Some ''Server error'')), d)
          else
            (let found = findProfile (profiles d) e;
                 profile' = (case found of
                               None \<Rightarrow> \<lparr>pf_name = n, pf_email = e, pf_phone = ph, pf_address = a\<rparr>
                             | Some pf \<Rightarrow> pf\<lparr>pf_name := n, pf_phone := ph, pf_address := a\<rparr>);
                 saved = (case found of
                            None \<Rightarrow> profiles d @ [profile']
                          | Some pf \<Rightarrow>
                              update_one (\<lambda>p. pf_email p = e) (\<lambda>p. profile') (profiles d))
             in if env_flt ev 1 then ((500, Failure (Some ''Server error'')), d)
                else if env_flt ev 2
                then ((500, Failure (Some ''Server error'')), d\<lparr>profiles := saved\<rparr>)
                else ((200, ProfileOk (Some ''Profile updated successfully'') profile'),
                      d\<lparr>profiles := saved,
                        users := update_one (\<lambda>u. u_email u = e) (\<lambda>u. u\<lparr>u_name := n\<rparr>)
                                   (users d)\<rparr>)))"

section \<open>Product routes\<close>

text \<open>
  The query string of GET /products. A text parameter is absent (\<open>None\<close>) or a string;
  the empty string is falsy, like an absent one. A numeric parameter is given by the
  number its non-empty text denotes (\<^verbatim>\<open>Number(...)\<close> of a numeral), so it is truthy
  whenever it is present, \<^verbatim>\<open>"0"\<close> included.
\<close>

record product_query =
  q_category :: "string option"
  q_priceMin :: "real option"
  q_priceMax :: "real option"
  q_size :: "string option"
  q_rating :: "real option"
  q_brand :: "string option"
  q_color :: "string option"

definition truthy :: "string option \<Rightarrow> bool" where
  "truthy s = (case s of None \<Rightarrow> False | Some v \<Rightarrow> v \<noteq> [])"

text \<open>
  The regular expression \<^verbatim>\<open>new RegExp(`^${color}$`, "i")\<close>. The colour is pasted into
  the pattern as it is. Patterns made of ordinary characters and the dot are interpreted
  here; a colour with any other syntax character is handed to \<open>compile\<close>, the regular
  expression engine, which yields the compiled matcher or \<open>None\<close> for a SyntaxError.
\<close>

definition regex_syntax_chars :: "char list" where
  "regex_syntax_chars =
     [CHR 0x5C, CHR ''^'', CHR ''$'', CHR ''.'', CHR ''*'', CHR ''+'', CHR ''?'', CHR ''('', CHR '')'',
      CHR ''['', CHR '']'', CHR 0x7B, CHR 0x7D, CHR ''|'']"

datatype rx_atom = Lit char | AnyChar

fun parse_pattern :: "string \<Rightarrow> rx_atom list option" where
  "parse_pattern [] = Some []"
| "parse_pattern (c # cs) =
     (if c = CHR ''.'' then map_option ((#) AnyChar) (parse_pattern cs)
      else if c \<in> set regex_syntax_chars then None
      else map_option ((#) (Lit c)) (parse_pattern cs))"

text \<open>The \<^verbatim>\<open>i\<close> flag compares characters after mapping a..z to A..Z.\<close>

definition canonicalize :: "char \<Rightarrow> char" where
  "canonicalize c =
     (if 97 \<le> (of_char c :: nat) \<and> (of_char c :: nat) \<le> 122 then char_of ((of_char c :: nat) - 32)
      else c)"

fun match_atom :: "rx_atom \<Rightarrow> char \<Rightarrow> bool" where
  "match_atom (Lit a) c = (canonicalize a = canonicalize c)"
| "match_atom AnyChar c = (c \<noteq> CHR 0x0A \<and> c \<noteq> CHR 0x0D)"

text \<open>Between \<^verbatim>\<open>^\<close> and \<^verbatim>\<open>$\<close> the atoms must consume the whole string.\<close>

fun match_whole :: "rx_atom list \<Rightarrow> string \<Rightarrow> bool" where
  "match_whole [] [] = True"
| "match_whole (a # as) (c # cs) = (match_atom a c \<and> match_whole as cs)"
| "match_whole [] (c # cs) = False"
| "match_whole (a # as) [] = False"

definition color_regex ::
  "(string \<Rightarrow> (string \<Rightarrow> bool) option) \<Rightarrow> string \<Rightarrow> (string \<Rightarrow> bool) option" where
  "color_regex compile color =
     (case parse_pattern color of
        Some atoms \<Rightarrow> Some (match_whole atoms)
      | None \<Rightarrow> compile (''^'' @ color @ ''$''))"

text \<open>The filter document handed to \<^verbatim>\<open>Product.find\<close>: a field is set or left out.\<close>

record mongo_filter =
  f_category :: "string option"
  f_size :: "string option"
  f_brand :: "string option"
  f_color :: "(string \<Rightarrow> bool) option"
  f_rating_gte :: "real option"
  f_price_gte :: "real option"
  f_price_lte :: "real option"

text \<open>
  The colour entry of the filter: \<open>None\<close> when the RegExp constructor throws, otherwise
  the entry (left out for a falsy colour).
\<close>

definition color_filter ::
  "(string \<Rightarrow> (string \<Rightarrow> bool) option) \<Rightarrow> string option \<Rightarrow> (string \<Rightarrow> bool) option option" where
  "color_filter compile c =
     (case c of
        None \<Rightarrow> Some None
      | Some v \<Rightarrow> if v = [] then Some None else map_option Some (color_regex compile v))"

definition build_filter ::
  "(string \<Rightarrow> (string \<Rightarrow> bool) option) \<Rightarrow> product_query \<Rightarrow> mongo_filter option" where
  "build_filter compile q =
     (case color_filter compile (q_color q) of
        None \<Rightarrow> None
      | Some rx \<Rightarrow>
          Some \<lparr>f_category = (if truthy (q_category q) then q_category q else None),
                f_size = (if truthy (q_size q) then q_size q else None),
                f_brand = (if truthy (q_brand q) then q_brand q else None),
                f_color = rx,
                f_rating_gte = q_rating q,
                f_price_gte = q_priceMin q,
                f_price_lte = q_priceMax q\<rparr>)"

text \<open>
  A document matches when every field the filter sets holds of it. A comparison against
  a null rating is false.
\<close>

definition matches :: "mongo_filter \<Rightarrow> product \<Rightarrow> bool" where
  "matches f p =
     ((case f_category f of None \<Rightarrow> True | Some c \<Rightarrow> p_category p = c) \<and>
      (case f_size f of None \<Rightarrow> True | Some z \<Rightarrow> p_size p = z) \<and>
      (case f_brand f of None \<Rightarrow> True | Some b \<Rightarrow> p_brand p = b) \<and>
      (case f_color f of None \<Rightarrow> True | Some rx \<Rightarrow> rx (p_color p)) \<and>
      (case f_rating_gte f of
         None \<Rightarrow> True
       | Some r \<Rightarrow> (case p_rating p of None \<Rightarrow> False | Some pr \<Rightarrow> r \<le> pr)) \<and>
      (case f_price_gte f of None \<Rightarrow> True | Some lo \<Rightarrow> lo \<le> p_price p) \<and>
      (case f_price_lte f of None \<Rightarrow> True | Some hi \<Rightarrow> p_price p \<le> hi))"

text \<open>
  GET /products. Building the filter can throw (the RegExp constructor); one store call
  (0). The catch block answers 500 with the error's message.
\<close>

definition list_products ::
  "(string \<Rightarrow> (string \<Rightarrow> bool) option) \<Rightarrow> faults \<Rightarrow> db \<Rightarrow> product_query \<Rightarrow> response" where
  "list_products compile flt d q =
     (case build_filter compile q of
        None \<Rightarrow> (500, FailureErr)
      | Some f \<Rightarrow>
          if flt 0 then (500, FailureErr)
          else (200, ProductArray (filter (matches f) (products d))))"











section \<open>Order routes\<close>

record line_item =
  li_productId :: objid
  li_quantity :: int

text \<open>
  \<^verbatim>\<open>Promise.all(products.map(async p => ...))\<close>: one \<^verbatim>\<open>Product.findById\<close> per line
  item, store calls \<open>k\<close>, \<open>k + 1\<close>, ... in item order. A lookup that throws and a
  lookup that finds nothing (\<^verbatim>\<open>throw new Error("Product not found: ...")\<close>) both reject
  the whole promise: the result is \<open>None\<close>.
\<close>

fun resolve_items :: "faults \<Rightarrow> nat \<Rightarrow> product list \<Rightarrow> line_item list \<Rightarrow> order_item list option" where
  "resolve_items flt k ps [] = Some []"
| "resolve_items flt k ps (li # lis) =
     (if flt k then None
      else case findById ps (li_productId li) of
             None \<Rightarrow> None
           | Some product \<Rightarrow>
               map_option
                 ((#) \<lparr>oi_productId = p_id product, productName = p_name product,
                       productPrice = p_price product, oi_quantity = li_quantity li\<rparr>)
                 (resolve_items flt (Suc k) ps lis))"

text \<open>
  POST /orders. Store calls: \<^verbatim>\<open>User.findOne\<close> (0), the lookups (1 .. n),
  \<^verbatim>\<open>order.save()\<close> (n + 1). \<open>fresh\<close> is the id the new document gets and \<open>now\<close> its
  \<^verbatim>\<open>Date.now\<close>; the store refuses a second document with the same id. One catch block
  serves every throw.
\<close>

definition create_order ::
  "faults \<Rightarrow> objid \<Rightarrow> nat \<Rightarrow> db \<Rightarrow> string \<Rightarrow> line_item list \<Rightarrow> real \<Rightarrow> response \<times> db" where
  "create_order flt fresh now d e items amount =
     (if flt 0 then ((500, Failure (Some ''Failed to create order'')), d)
      else case findOne (users d) e of
             None \<Rightarrow> ((404, Failure (Some ''User not found'')), d)
           | Some u \<Rightarrow>
               (case resolve_items flt 1 (products d) items of
                  None \<Rightarrow> ((500, Failure (Some ''Failed to create order'')), d)
                | Some productData \<Rightarrow>
                    (let order = \<lparr>o_id = fresh, userId = u_id u, o_products = productData,
                                  totalAmount = amount, status = ''Pending'', createdAt = now\<rparr>
                     in if flt (Suc (length items)) \<or> find (\<lambda>r. o_id r = fresh) (orders d) \<noteq> None
                        then ((500, Failure (Some ''Failed to create order'')), d)
                        else ((200, OrderOk (Some order)), d\<lparr>orders := orders d @ [order]\<rparr>))))"

definition findOrder :: "order list \<Rightarrow> objid \<Rightarrow> order option" where
  "findOrder os i = find (\<lambda>r. o_id r = i) os"


section \<open>The server as a transition system\<close>



section \<open>Error kinds\<close>

text \<open>
  The error kinds of the error-handling design and the status code each is reported
  with.
\<close>

datatype error_kind = Validation | Conflict | NotFound | Unauthorized | Forbidden | ServerFault

definition error_kind_of :: "response \<Rightarrow> error_kind option" where
  "error_kind_of r =
     (if fst r = 400 then Some Validation
      else if fst r = 409 then Some Conflict
      else if fst r = 404 then Some NotFound
      else if fst r = 401 then Some Unauthorized
      else if fst r = 403 then Some Forbidden
      else if fst r = 500 then Some ServerFault
      else None)"


section \<open>The product filter in the specification's words\<close>

text \<open>
  The conjunction of the provided predicates: exact match on category, size and brand,
  exact match on colour up to letter case, rating at least the minimum, price within the
  inclusive range. A text field counts as provided when it is present and not empty.
\<close>

definition ci_equal :: "string \<Rightarrow> string \<Rightarrow> bool" where
  "ci_equal a b = (map canonicalize a = map canonicalize b)"

definition satisfies :: "product_query \<Rightarrow> product \<Rightarrow> bool" where
  "satisfies q p =
     ((if truthy (q_category q) then Some (p_category p) = q_category q else True) \<and>
      (if truthy (q_size q) then Some (p_size p) = q_size q else True) \<and>
      (if truthy (q_brand q) then Some (p_brand p) = q_brand q else True) \<and>
      (case q_color q of None \<Rightarrow> True | Some c \<Rightarrow> c = [] \<or> ci_equal c (p_color p)) \<and>
      (case q_rating q of
         None \<Rightarrow> True
       | Some r \<Rightarrow> (case p_rating p of None \<Rightarrow> False | Some pr \<Rightarrow> r \<le> pr)) \<and>
      (case q_priceMin q of None \<Rightarrow> True | Some lo \<Rightarrow> lo \<le> p_price p) \<and>
      (case q_priceMax q of None \<Rightarrow> True | Some hi \<Rightarrow> p_price p \<le> hi))"

section \<open>Notions for the cart\<close>






section \<open>Example data\<close>

definition shoeA :: product where
  "shoeA = \<lparr>p_id = ''a1'', p_name = ''Runner'', p_price = 100, p_category = ''women'',
             p_description = [], p_image = ''/uploads/a.png'', p_size = ''7'', p_brand = ''Acme'',
             p_rating = Some 4, p_color = ''Red''\<rparr>"

definition shoeB :: product where
  "shoeB = \<lparr>p_id = ''b2'', p_name = ''Loafer'', p_price = 200, p_category = ''women'',
             p_description = [], p_image = ''/uploads/b.png'', p_size = ''8'', p_brand = ''Acme'',
             p_rating = None, p_color = ''x''\<rparr>"

text \<open>Alice's cart and wishlist still name a product (\<open>gone\<close>) that was deleted.\<close>

definition alice :: user where
  "alice = \<lparr>u_id = ''u1'', u_name = ''Alice'', u_email = ''alice@example.com'',
             u_password = ''hash:secret'', u_role = ''user'', u_wishlist = [''a1'', ''gone''],
             u_cart = Some [\<lparr>productId = ''a1'', quantity = 2\<rparr>, \<lparr>productId = ''gone'', quantity = 1\<rparr>]\<rparr>"

definition order1 :: order where
  "order1 = \<lparr>o_id = ''o1'', userId = ''u1'',
              o_products = [\<lparr>oi_productId = ''a1'', productName = ''Runner'', productPrice = 90,
                             oi_quantity = 1\<rparr>],
              totalAmount = 90, status = ''Pending'', createdAt = 5\<rparr>"

definition shop :: db where
  "shop = \<lparr>users = [alice], products = [shoeA, shoeB], orders = [order1], profiles = []\<rparr>"


text \<open>Stand-ins for bcrypt in the examples, and the shop after Bob signed up.\<close>

definition demo_hash :: "string \<Rightarrow> string" where
  "demo_hash pw = ''hash:'' @ pw"

definition demo_compare :: "string \<Rightarrow> string \<Rightarrow> bool" where
  "demo_compare pw h = (h = demo_hash pw)"

definition with_bob :: db where
  "with_bob = snd (signup demo_hash no_faults ''u2'' shop ''Bob'' ''bob@example.com'' ''pw'' ''pw'' None)"

text \<open>The query that sets only the colour, and the query of the spec's example.\<close>

definition by_color :: "string \<Rightarrow> product_query" where
  "by_color c = \<lparr>q_category = None, q_priceMin = None, q_priceMax = None, q_size = None,
                  q_rating = None, q_brand = None, q_color = Some c\<rparr>"

definition women_up_to_150 :: product_query where
  "women_up_to_150 = \<lparr>q_category = Some ''women'', q_priceMin = None, q_priceMax = Some 150,
                       q_size = None, q_rating = None, q_brand = None, q_color = None\<rparr>"

text \<open>
  An environment for the examples: a store that answers, an engine that is not asked, and
  stand-ins for the language and the driver that are right on the examples: only 24 hex
  digits are an id, sums are exact (the examples add small integers), no text is a
  number, and a path parameter without a percent sign decodes to itself.
\<close>

definition demo_decode :: "string \<Rightarrow> string option" where
  "demo_decode t = (if CHR ''%'' \<in> set t then None else Some t)"

definition demo_env :: env where
  "demo_env = \<lparr>env_flt = no_faults, env_fresh = ''n1'', env_now = 9, env_hash = demo_hash,
                 env_compare = demo_compare, env_regex = (\<lambda>s. None), env_cast = (\<lambda>s. None),
                 env_round = Fin, env_to_number = (\<lambda>s. NaN), env_to_string = (\<lambda>n. []),
                 env_decode = demo_decode\<rparr>"

text \<open>
  Carol's cart holds 2 of the product with id \<open>id_a\<close>; \<open>id_a_upper\<close> is the same id in
  upper-case hex digits.
\<close>

definition id_a :: objid where
  "id_a = ''aaaaaaaaaaaaaaaaaaaaaaa1''"

definition id_a_upper :: string where
  "id_a_upper = ''AAAAAAAAAAAAAAAAAAAAAAA1''"


definition carol :: user where
  "carol = \<lparr>u_id = ''cccccccccccccccccccccc03'', u_name = ''Carol'', u_email = ''carol@example.com'',
             u_password = ''hash:secret'', u_role = ''user'', u_wishlist = [],
             u_cart = Some [\<lparr>productId = id_a, quantity = 2\<rparr>]\<rparr>"

definition boutique :: db where
  "boutique = \<lparr>users = [carol], products = [], orders = [], profiles = []\<rparr>"

section \<open>Facts about the routes\<close>

subsection \<open>Numbers\<close>


lemma js_add_exact: "rnd (x + y) = Fin (x + y) \<Longrightarrow> js_add rnd (Fin x) (Fin y) = Fin (x + y)"
  by simp

subsection \<open>Lookups and the cart view\<close>

lemma findById_id: "findById ps i = Some p \<Longrightarrow> p_id p = i"
  unfolding findById_def by (induction ps) (auto split: if_splits)

lemma findById_mem: "findById ps i = Some p \<Longrightarrow> p \<in> set ps"
  unfolding findById_def by (induction ps) (auto split: if_splits)

lemma cleanedCart_ids:
  "map cl_id (cleanedCart (populate_cart ps c)) = map productId (filter (resolves ps) c)"
proof (induction c)
  case Nil
  show ?case by (simp add: cleanedCart_def populate_cart_def)
next
  case (Cons it c)
  then show ?case
    by (auto simp: cleanedCart_def populate_cart_def resolves_def
        dest: findById_id split: option.splits)
qed

lemma cleanedCart_quantities:
  "map cl_quantity (cleanedCart (populate_cart ps c)) = map quantity (filter (resolves ps) c)"
proof (induction c)
  case Nil
  show ?case by (simp add: cleanedCart_def populate_cart_def)
next
  case (Cons it c)
  then show ?case
    by (auto simp: cleanedCart_def populate_cart_def resolves_def
        split: option.splits)
qed

lemma cleanedCart_current:
  "l \<in> set (cleanedCart (populate_cart ps c)) \<Longrightarrow>
     \<exists>p. findById ps (cl_id l) = Some p \<and> cl_name l = p_name p \<and> cl_price l = p_price p"
proof (induction c)
  case Nil
  then show ?case by (simp add: cleanedCart_def populate_cart_def)
next
  case (Cons it c)
  show ?case
  proof (cases "findById ps (productId it)")
    case None
    with Cons show ?thesis
      by (simp add: cleanedCart_def populate_cart_def)
  next
    case (Some p)
    then have "findById ps (p_id p) = Some p"
      using findById_id [of ps "productId it" p] by simp
    with Cons Some show ?thesis
      by (auto simp: cleanedCart_def populate_cart_def)
  qed
qed

subsection \<open>Updating the first match\<close>

lemma find_update_one_same:
  "(\<And>x. P (f x) = P x) \<Longrightarrow> find P (update_one P f xs) = map_option f (find P xs)"
  by (induction xs) auto


lemma update_one_fixed:
  "find P xs = Some x \<Longrightarrow> f x = x \<Longrightarrow> update_one P f xs = xs"
  by (induction xs) (auto split: if_splits)

lemma update_one_absent:
  "find P xs = None \<Longrightarrow> update_one P f xs = xs"
  by (induction xs) (auto split: if_splits)

lemma find_update_one_hit:
  "find P xs = Some x \<Longrightarrow> P (f x) \<Longrightarrow> find P (update_one P f xs) = Some (f x)"
  by (induction xs) (auto split: if_splits)


lemma find_Some_holds: "find P xs = Some x \<Longrightarrow> P x"
  by (induction xs) (auto split: if_splits)

text \<open>Where \<open>update_one\<close> changes a list: at the first match, and nowhere else.\<close>

lemma update_one_split:
  "find P xs = Some x \<Longrightarrow>
     \<exists>before after. xs = before @ x # after \<and> (\<forall>y \<in> set before. \<not> P y) \<and>
                    update_one P f xs = before @ f x # after"
proof (induction xs)
  case Nil
  then show ?case by simp
next
  case (Cons a xs)
  show ?case
  proof (cases "P a")
    case True
    with Cons.prems have "a = x" by simp
    with True show ?thesis
      by (intro exI [of _ "[]"] exI [of _ xs]) simp
  next
    case False
    with Cons.prems have "find P xs = Some x" by simp
    then obtain before after where
      "xs = before @ x # after" "\<forall>y \<in> set before. \<not> P y" "update_one P f xs = before @ f x # after"
      using Cons.IH by blast
    with False show ?thesis
      by (intro exI [of _ "a # before"] exI [of _ after]) simp
  qed
qed

lemma update_one_twice:
  "(\<And>x. P (f x) = P x) \<Longrightarrow> update_one P g (update_one P f xs) = update_one P (\<lambda>x. g (f x)) xs"
  by (induction xs) auto

lemma findOne_save_cart:
  "findOne (users (save_cart e c d)) e = map_option (\<lambda>u. u\<lparr>u_cart := Some c\<rparr>) (findOne (users d) e)"
  unfolding findOne_def save_cart_def by (simp add: find_update_one_same)

lemma products_save_cart: "products (save_cart e c d) = products d"
  by (simp add: save_cart_def)

lemma save_cart_twice: "save_cart e c' (save_cart e c d) = save_cart e c' d"
  by (simp add: save_cart_def update_one_twice)

subsection \<open>Removing from the cart and the wishlist\<close>

lemma depopulate_kept:
  "depopulate (filter (\<lambda>it. case pi_product it of None \<Rightarrow> False | Some pr \<Rightarrow> p_id pr \<noteq> p)
                 (populate_cart ps c)) =
   filter (\<lambda>it. resolves ps it \<and> productId it \<noteq> p) c"
proof (induction c)
  case Nil
  show ?case by (simp add: depopulate_def populate_cart_def)
next
  case (Cons it c)
  show ?case
  proof (cases "findById ps (productId it)")
    case None
    with Cons show ?thesis
      by (simp add: depopulate_def populate_cart_def resolves_def)
  next
    case (Some pr)
    then have "p_id pr = productId it" by (rule findById_id)
    with Cons Some show ?thesis
      by (simp add: depopulate_def populate_cart_def resolves_def)
  qed
qed

lemma cleaned_kept:
  "cleanedCart (filter (\<lambda>it. case pi_product it of None \<Rightarrow> False | Some pr \<Rightarrow> p_id pr \<noteq> p)
                 (populate_cart ps c)) =
   cleanedCart (populate_cart ps (filter (\<lambda>it. productId it \<noteq> p) c))"
proof (induction c)
  case Nil
  show ?case by (simp add: cleanedCart_def populate_cart_def)
next
  case (Cons it c)
  show ?case
  proof (cases "findById ps (productId it)")
    case None
    with Cons show ?thesis
      by (simp add: cleanedCart_def populate_cart_def)
  next
    case (Some pr)
    then have "p_id pr = productId it" by (rule findById_id)
    with Cons Some show ?thesis
      by (simp add: cleanedCart_def populate_cart_def)
  qed
qed

lemma filter_not_member:
  "p \<notin> productId ` set c \<Longrightarrow>
     filter (\<lambda>it. resolves ps it \<and> productId it \<noteq> p) c = filter (resolves ps) c"
  by (induction c) auto

lemma filter_ne_not_member:
  "p \<notin> productId ` set c \<Longrightarrow> filter (\<lambda>it. productId it \<noteq> p) c = c"
  by (induction c) auto

lemma cleanedCart_resolving:
  "cleanedCart (populate_cart ps (filter (\<lambda>it. resolves ps it \<and> Q it) c)) =
   cleanedCart (populate_cart ps (filter Q c))"
  by (induction c) (auto simp: cleanedCart_def populate_cart_def resolves_def)

lemma filter_kept_ne:
  "filter (\<lambda>it. productId it \<noteq> p) (filter (\<lambda>it. R it \<and> productId it \<noteq> p) c) =
   filter (\<lambda>it. R it \<and> productId it \<noteq> p) c"
  by (induction c) auto

lemma findOne_update_wishlist:
  "findOne (update_one (\<lambda>u. u_email u = e) (\<lambda>u. u\<lparr>u_wishlist := w u\<rparr>) us) e =
     map_option (\<lambda>u. u\<lparr>u_wishlist := w u\<rparr>) (findOne us e)"
  unfolding findOne_def by (simp add: find_update_one_same)

lemma remove_from_cart_twice:
  "remove_from_cart flt (snd (remove_from_cart flt d e p)) e p = remove_from_cart flt d e p"
proof (cases "flt 0 \<or> flt 1 \<or> findOne (users d) e = None")
  case True
  then show ?thesis
    by (auto simp: remove_from_cart_def Let_def split: option.splits)
next
  case False
  then obtain u where u: "findOne (users d) e = Some u" and f: "\<not> flt 0" "\<not> flt 1"
    by auto
  let ?kept = "filter (\<lambda>it. resolves (products d) it \<and> productId it \<noteq> p) (cart_of u)"
  have first: "remove_from_cart flt d e p =
                 ((200, CartArray (cleanedCart (populate_cart (products d)
                                     (filter (\<lambda>it. productId it \<noteq> p) (cart_of u))))),
                  save_cart e ?kept d)"
    using u f by (simp add: remove_from_cart_def Let_def depopulate_kept cleaned_kept)
  have again: "filter (\<lambda>it. resolves (products d) it \<and> productId it \<noteq> p) ?kept = ?kept"
    by simp
  have view: "cleanedCart (populate_cart (products d) (filter (\<lambda>it. productId it \<noteq> p) ?kept)) =
              cleanedCart (populate_cart (products d) (filter (\<lambda>it. productId it \<noteq> p) (cart_of u)))"
    unfolding filter_kept_ne by (rule cleanedCart_resolving)
  have second: "remove_from_cart flt (save_cart e ?kept d) e p =
                 ((200, CartArray (cleanedCart (populate_cart (products d)
                                     (filter (\<lambda>it. productId it \<noteq> p) ?kept)))),
                  save_cart e ?kept d)"
    using u f
    by (simp add: remove_from_cart_def Let_def depopulate_kept cleaned_kept findOne_save_cart
        products_save_cart cart_of_def save_cart_twice del: filter_filter)
  show ?thesis
    unfolding first using second view by simp
qed

lemma remove_from_wishlist_twice:
  "remove_from_wishlist flt (snd (remove_from_wishlist flt d e p)) e p = remove_from_wishlist flt d e p"
proof (cases "flt 0 \<or> flt 1 \<or> findOne (users d) e = None")
  case True
  then show ?thesis
    by (auto simp: remove_from_wishlist_def split: option.splits)
next
  case False
  then obtain u where u: "findOne (users d) e = Some u" and f: "\<not> flt 0" "\<not> flt 1"
    by auto
  then show ?thesis
    by (simp add: remove_from_wishlist_def findOne_update_wishlist update_one_twice)
qed

lemma remove_from_wishlist_non_member:
  assumes "findOne (users d) e = Some u" and "\<not> flt 0" and "\<not> flt 1" and "p \<notin> set (u_wishlist u)"
  shows "remove_from_wishlist flt d e p = ((200, SuccessMsg ''Product removed from wishlist''), d)"
proof -
  have "update_one (\<lambda>u. u_email u = e) (\<lambda>u. u\<lparr>u_wishlist := removeAll p (u_wishlist u)\<rparr>) (users d) = users d"
    using assms(1,4) unfolding findOne_def by (intro update_one_fixed [where x = u]) simp_all
  with assms show ?thesis
    by (simp add: remove_from_wishlist_def)
qed

subsection \<open>Adding to the cart\<close>











text \<open>
  The same product, named by upper-case hex digits: no stored text agrees with the
  request's, and the cast id is pushed as a second entry.
\<close>

lemma add_to_cart_upper_case_duplicate:
  "findOne (users (snd (add_to_cart demo_env boutique ''carol@example.com'' id_a_upper (JNum 1))))
       ''carol@example.com'' =
     Some (carol\<lparr>u_cart := Some [\<lparr>productId = id_a, quantity = 2\<rparr>,
                                  \<lparr>productId = id_a, quantity = 1\<rparr>]\<rparr>)"
proof -
  have c: "castObjectId (\<lambda>s. None) id_a_upper = Some id_a"
    by (simp add: castObjectId_def id_a_upper_def id_a_def hex_digits_def lower_hex_def)
  have n: "id_a \<noteq> id_a_upper"
    by (simp add: id_a_upper_def id_a_def)
  have o: "(1 :: number) = Fin 1"
    by (simp add: one_number_def)
  show ?thesis
    using c n
    by (simp add: add_to_cart_def demo_env_def no_faults_def boutique_def carol_def findOne_def
        cart_of_def save_cart_def or_one_def truthy_quantity_def cast_quantity_def Let_def o)
qed

text \<open>
  A quantity sent as text is appended to the stored quantity's text: with 2 in the cart
  and the text 3, the cart holds whatever number the text of 2 followed by 3 denotes (23
  for the language's own conversions).
\<close>

lemma add_to_cart_text_is_appended:
  assumes "findOne (users d) e = Some u" and "\<not> env_flt ev 0" and "\<not> env_flt ev 1"
    and "find (\<lambda>it. productId it = p) (cart_of u) = Some x" and "t \<noteq> []"
    and "env_to_number ev (env_to_string ev (quantity x) @ t) = n" and "n \<noteq> NaN"
  shows "add_to_cart ev d e p (JStr t) =
           ((200, Success),
            save_cart e (update_one (\<lambda>it. productId it = p) (\<lambda>it. it\<lparr>quantity := n\<rparr>) (cart_of u)) d)"
  using assms
  by (simp add: add_to_cart_def Let_def or_one_def truthy_quantity_def plus_assign_def)

subsection \<open>The cart invariant across requests\<close>









subsection \<open>Reading the wishlist\<close>

lemma populate_wishlist_ids:
  "map p_id (populate_wishlist ps w) = filter (\<lambda>i. findById ps i \<noteq> None) w"
proof (induction w)
  case Nil
  show ?case by (simp add: populate_wishlist_def)
next
  case (Cons i w)
  then show ?case
    by (auto simp: populate_wishlist_def dest: findById_id)
qed

lemma populate_wishlist_current: "set (populate_wishlist ps w) \<subseteq> set ps"
  by (induction w) (auto simp: populate_wishlist_def dest: findById_mem split: option.splits)

subsection \<open>Order creation\<close>

lemma resolve_items_unresolved:
  "\<exists>li \<in> set items. findById ps (li_productId li) = None \<Longrightarrow> resolve_items flt k ps items = None"
proof (induction items arbitrary: k)
  case Nil
  then show ?case by simp
next
  case (Cons li items)
  show ?case
  proof (cases "findById ps (li_productId li)")
    case None
    then show ?thesis by simp
  next
    case (Some product)
    with Cons.prems have "\<exists>li \<in> set items. findById ps (li_productId li) = None"
      by auto
    then have "resolve_items flt (Suc k) ps items = None"
      by (rule Cons.IH)
    with Some show ?thesis by simp
  qed
qed

text \<open>What a snapshot of a line item is: the product's id, current name and price.\<close>

lemma resolve_items_snapshot:
  "resolve_items flt k ps items = Some ois \<Longrightarrow>
     list_all2 (\<lambda>li oi. \<exists>product. findById ps (li_productId li) = Some product \<and>
                  oi = \<lparr>oi_productId = li_productId li, productName = p_name product,
                        productPrice = p_price product, oi_quantity = li_quantity li\<rparr>) items ois"
proof (induction items arbitrary: k ois)
  case Nil
  then show ?case by simp
next
  case (Cons li items)
  from Cons.prems obtain product rest where
    p: "findById ps (li_productId li) = Some product" and
    r: "resolve_items flt (Suc k) ps items = Some rest" and
    o: "ois = \<lparr>oi_productId = p_id product, productName = p_name product,
                productPrice = p_price product, oi_quantity = li_quantity li\<rparr> # rest"
    by (auto split: if_splits option.splits)
  from p have "p_id product = li_productId li" by (rule findById_id)
  with p o Cons.IH [OF r] show ?case by auto
qed

lemma resolve_items_resolved:
  "\<forall>li \<in> set items. findById ps (li_productId li) \<noteq> None \<Longrightarrow>
   \<forall>j < length items. \<not> flt (k + j) \<Longrightarrow> \<exists>ois. resolve_items flt k ps items = Some ois"
proof (induction items arbitrary: k)
  case Nil
  then show ?case by simp
next
  case (Cons li items)
  from Cons.prems(2) have "\<forall>j < length items. \<not> flt (Suc k + j)"
    by auto
  with Cons.prems(1) have "\<exists>ois. resolve_items flt (Suc k) ps items = Some ois"
    by (intro Cons.IH) auto
  moreover from Cons.prems(2) have "\<not> flt k"
    by (metis add.right_neutral length_Cons zero_less_Suc)
  ultimately show ?case
    using Cons.prems(1) by auto
qed

subsection \<open>Profile upsert\<close>

text \<open>A failed decoding, lookup or save of PUT /api/profile/:email leaves no trace.\<close>

lemma put_profile_early_failure:
  "env_decode ev param = None \<or> env_flt ev 0 \<or> env_flt ev 1 \<Longrightarrow>
     put_profile ev d param n ph a = ((500, Failure (Some ''Server error'')), d)"
  by (auto simp: put_profile_def Let_def split: option.splits)

text \<open>The profile write: one profile appended, or the first one for the email overwritten.\<close>

lemma put_profile_profiles:
  assumes "env_decode ev param = Some e" and "\<not> env_flt ev 0" and "\<not> env_flt ev 1"
  shows "(findProfile (profiles d) e = None \<and>
          profiles (snd (put_profile ev d param n ph a)) =
            profiles d @ [\<lparr>pf_name = n, pf_email = e, pf_phone = ph, pf_address = a\<rparr>] \<and>
          (env_flt ev 2 \<or> fst (put_profile ev d param n ph a) =
             (200, ProfileOk (Some ''Profile updated successfully'')
                     \<lparr>pf_name = n, pf_email = e, pf_phone = ph, pf_address = a\<rparr>))) \<or>
         (\<exists>before old after.
            profiles d = before @ old # after \<and> pf_email old = e \<and>
            (\<forall>x \<in> set before. pf_email x \<noteq> e) \<and>
            profiles (snd (put_profile ev d param n ph a)) =
              before @ old\<lparr>pf_name := n, pf_phone := ph, pf_address := a\<rparr> # after \<and>
            (env_flt ev 2 \<or> fst (put_profile ev d param n ph a) =
               (200, ProfileOk (Some ''Profile updated successfully'')
                       (old\<lparr>pf_name := n, pf_phone := ph, pf_address := a\<rparr>))))"
proof (cases "findProfile (profiles d) e")
  case None
  with assms show ?thesis
    by (simp add: put_profile_def Let_def)
next
  case (Some old)
  then have e: "pf_email old = e"
    unfolding findProfile_def by (rule find_Some_holds)
  from Some obtain before after where
    "profiles d = before @ old # after" "\<forall>x \<in> set before. pf_email x \<noteq> e"
    "update_one (\<lambda>p. pf_email p = e) (\<lambda>p. old\<lparr>pf_name := n, pf_phone := ph, pf_address := a\<rparr>)
       (profiles d) = before @ old\<lparr>pf_name := n, pf_phone := ph, pf_address := a\<rparr> # after"
    unfolding findProfile_def
    using update_one_split [of "\<lambda>p. pf_email p = e" "profiles d" old
        "\<lambda>p. old\<lparr>pf_name := n, pf_phone := ph, pf_address := a\<rparr>"]
    by blast
  with Some e assms have
    "\<exists>before old after.
            profiles d = before @ old # after \<and> pf_email old = e \<and>
            (\<forall>x \<in> set before. pf_email x \<noteq> e) \<and>
            profiles (snd (put_profile ev d param n ph a)) =
              before @ old\<lparr>pf_name := n, pf_phone := ph, pf_address := a\<rparr> # after \<and>
            (env_flt ev 2 \<or> fst (put_profile ev d param n ph a) =
               (200, ProfileOk (Some ''Profile updated successfully'')
                       (old\<lparr>pf_name := n, pf_phone := ph, pf_address := a\<rparr>)))"
    by (intro exI [of _ before] exI [of _ old] exI [of _ after])
       (simp add: put_profile_def Let_def)
  then show ?thesis ..
qed

text \<open>The name push: the first user with the email is renamed, and no other.\<close>

lemma put_profile_users:
  assumes "env_decode ev param = Some e" and "\<not> env_flt ev 0" and "\<not> env_flt ev 1"
    and "\<not> env_flt ev 2"
  shows "(findOne (users d) e = None \<and> users (snd (put_profile ev d param n ph a)) = users d) \<or>
         (\<exists>before u after.
            users d = before @ u # after \<and> u_email u = e \<and> (\<forall>x \<in> set before. u_email x \<noteq> e) \<and>
            users (snd (put_profile ev d param n ph a)) = before @ u\<lparr>u_name := n\<rparr> # after)"
proof (cases "findOne (users d) e")
  case None
  then have "update_one (\<lambda>u. u_email u = e) (\<lambda>u. u\<lparr>u_name := n\<rparr>) (users d) = users d"
    unfolding findOne_def by (rule update_one_absent)
  with None assms show ?thesis
    by (simp add: put_profile_def Let_def)
next
  case (Some u)
  then have e: "u_email u = e"
    unfolding findOne_def by (rule find_Some_holds)
  from Some obtain before after where
    "users d = before @ u # after" "\<forall>x \<in> set before. u_email x \<noteq> e"
    "update_one (\<lambda>u. u_email u = e) (\<lambda>u. u\<lparr>u_name := n\<rparr>) (users d) =
       before @ u\<lparr>u_name := n\<rparr> # after"
    unfolding findOne_def
    using update_one_split [of "\<lambda>u. u_email u = e" "users d" u "\<lambda>u. u\<lparr>u_name := n\<rparr>"]
    by blast
  with e assms have
    "\<exists>before u after.
            users d = before @ u # after \<and> u_email u = e \<and> (\<forall>x \<in> set before. u_email x \<noteq> e) \<and>
            users (snd (put_profile ev d param n ph a)) = before @ u\<lparr>u_name := n\<rparr> # after"
    by (intro exI [of _ before] exI [of _ u] exI [of _ after])
       (simp add: put_profile_def Let_def)
  then show ?thesis ..
qed

lemma put_profile_sync_failed:
  assumes "env_decode ev param = Some e" and "\<not> env_flt ev 0" and "\<not> env_flt ev 1"
    and "env_flt ev 2"
  shows "fst (put_profile ev d param n ph a) = (500, Failure (Some ''Server error'')) \<and>
         users (snd (put_profile ev d param n ph a)) = users d"
  using assms by (simp add: put_profile_def Let_def)

lemma put_profile_frame:
  "products (snd (put_profile ev d param n ph a)) = products d \<and>
   orders (snd (put_profile ev d param n ph a)) = orders d"
  by (simp add: put_profile_def Let_def split: option.splits)

subsection \<open>The product filter\<close>

lemma parse_pattern_literal:
  "set c \<inter> set regex_syntax_chars = {} \<Longrightarrow> parse_pattern c = Some (map Lit c)"
proof (induction c)
  case Nil
  show ?case by simp
next
  case (Cons a c)
  then have "a \<notin> set regex_syntax_chars" and "parse_pattern c = Some (map Lit c)"
    by auto
  moreover from this(1) have "a \<noteq> CHR ''.''"
    by (auto simp: regex_syntax_chars_def)
  ultimately show ?case by simp
qed

lemma match_whole_literal: "match_whole (map Lit c) s = ci_equal c s"
proof (induction c arbitrary: s)
  case Nil
  show ?case by (cases s) (simp_all add: ci_equal_def)
next
  case (Cons a c)
  show ?case
  proof (cases s)
    case Nil
    then show ?thesis by (simp add: ci_equal_def)
  next
    case (Cons b t)
    with Cons.IH [of t] show ?thesis by (auto simp: ci_equal_def)
  qed
qed

lemma color_filter_literal:
  "set c \<inter> set regex_syntax_chars = {} \<Longrightarrow>
     color_filter compile (Some c) = Some (if c = [] then None else Some (ci_equal c))"
  by (auto simp: color_filter_def color_regex_def parse_pattern_literal match_whole_literal)

text \<open>
  Apart from colours that contain regular expression syntax, GET /products returns
  exactly the products that satisfy the conjunction of the provided predicates.
\<close>

lemma list_products_satisfies:
  assumes "\<not> flt 0"
    and "case q_color q of None \<Rightarrow> True | Some c \<Rightarrow> set c \<inter> set regex_syntax_chars = {}"
  shows "list_products compile flt d q = (200, ProductArray (filter (satisfies q) (products d)))"
proof -
  obtain rx where rx: "color_filter compile (q_color q) = Some rx"
    and m: "\<And>p :: product. (case rx of None \<Rightarrow> True | Some t \<Rightarrow> t (p_color p)) =
                 (case q_color q of None \<Rightarrow> True | Some c \<Rightarrow> c = [] \<or> ci_equal c (p_color p))"
  proof (cases "q_color q")
    case None
    then show ?thesis using that [of None] by (simp add: color_filter_def)
  next
    case (Some c)
    with assms(2) have "color_filter compile (q_color q) = Some (if c = [] then None else Some (ci_equal c))"
      by (simp add: color_filter_literal)
    with Some show ?thesis
      using that [of "if c = [] then None else Some (ci_equal c)"] by simp
  qed
  let ?f = "\<lparr>f_category = (if truthy (q_category q) then q_category q else None),
              f_size = (if truthy (q_size q) then q_size q else None),
              f_brand = (if truthy (q_brand q) then q_brand q else None),
              f_color = rx, f_rating_gte = q_rating q, f_price_gte = q_priceMin q,
              f_price_lte = q_priceMax q\<rparr>"
  have "matches ?f p = satisfies q p" for p
    unfolding matches_def satisfies_def using m [of p]
    by (auto simp: truthy_def split: option.splits)
  then have eq: "matches ?f = satisfies q"
    by (rule ext)
  have "build_filter compile q = Some ?f"
    using rx by (simp add: build_filter_def)
  then have "list_products compile flt d q = (200, ProductArray (filter (matches ?f) (products d)))"
    using assms(1) by (simp add: list_products_def split del: if_split)
  then show ?thesis
    unfolding eq .
qed

text \<open>The example of the specification: category women and a price of at most 150.\<close>

lemma list_products_example:
  "list_products compile no_faults shop women_up_to_150 = (200, ProductArray [shoeA])"
  by (simp add: list_products_def build_filter_def color_filter_def matches_def truthy_def
      women_up_to_150_def no_faults_def shop_def shoeA_def shoeB_def)

subsection \<open>Login\<close>

text \<open>The three refusals of POST /login, in the order the handler checks them.\<close>

lemma login_refusals:
  assumes "\<not> flt 0"
  shows "findOne (users d) e = None \<Longrightarrow>
           login cmp flt d e pw r = ((404, Failure (Some ''User not found'')), d)"
    and "findOne (users d) e = Some u \<Longrightarrow> \<not> cmp pw (u_password u) \<Longrightarrow>
           login cmp flt d e pw r = ((401, Failure (Some ''Invalid password'')), d)"
    and "findOne (users d) e = Some u \<Longrightarrow> cmp pw (u_password u) \<Longrightarrow> u_role u \<noteq> r \<Longrightarrow>
           login cmp flt d e pw r =
             ((403, Failure (Some (''Incorrect role. Registered as '' @ u_role u))), d)"
    and "findOne (users d) e = Some u \<Longrightarrow> cmp pw (u_password u) \<Longrightarrow> u_role u = r \<Longrightarrow>
           login cmp flt d e pw r = ((200, LoginOk r None), d)"
  using assms by (simp_all add: login_def isFirstLogin_def Let_def)

text \<open>No login changes the database, and no answer carries a defined first-login flag.\<close>

lemma login_never_first:
  "snd (login cmp flt d e pw r) = d \<and> fst (login cmp flt d e pw r) \<noteq> (st, LoginOk ro (Some b))"
  by (simp add: login_def isFirstLogin_def Let_def split: option.splits)

subsection \<open>Orders across requests\<close>









section \<open>Claims\<close>

text \<open>
  C1. A cart read always answers HTTP 200 with a JSON array. The array is empty when the
  store call throws, when no user has the email, and when the user's document has no cart
  array. Otherwise it holds, in stored order, exactly the entries whose product reference
  resolves in the catalog (dangling entries are dropped), each with its stored quantity
  and the current name and price of its product.
\<close>

theorem get_cart_always_200_array:
  "\<exists>ls. get_cart flt d e = (200, CartArray ls) \<and>
        (flt 0 \<or> findOne (users d) e = None \<or> (\<exists>u. findOne (users d) e = Some u \<and> u_cart u = None)
           \<longrightarrow> ls = []) \<and>
        (\<forall>u c. \<not> flt 0 \<and> findOne (users d) e = Some u \<and> u_cart u = Some c \<longrightarrow>
           map cl_id ls = map productId (filter (resolves (products d)) c) \<and>
           map cl_quantity ls = map quantity (filter (resolves (products d)) c) \<and>
           (\<forall>l \<in> set ls. \<exists>p. findById (products d) (cl_id l) = Some p \<and>
                                cl_name l = p_name p \<and> cl_price l = p_price p))"
proof (cases "flt 0")
  case True
  then show ?thesis by (simp add: get_cart_def)
next
  case False
  show ?thesis
  proof (cases "findOne (users d) e")
    case None
    with False show ?thesis by (simp add: get_cart_def)
  next
    case (Some u)
    show ?thesis
    proof (cases "u_cart u")
      case None
      with False Some show ?thesis by (simp add: get_cart_def)
    next
      case c: (Some c)
      have "get_cart flt d e = (200, CartArray (cleanedCart (populate_cart (products d) c)))"
        using False Some c by (simp add: get_cart_def)
      then show ?thesis
        using False Some c cleanedCart_ids cleanedCart_quantities cleanedCart_current
        by auto
    qed
  qed
qed

theorem get_cart_always_200_array_witness:
  "get_cart no_faults shop ''alice@example.com'' =
     (200, CartArray [\<lparr>cl_id = ''a1'', cl_name = ''Runner'', cl_price = 100, cl_quantity = 2\<rparr>]) \<and>
   get_cart (\<lambda>k. True) shop ''alice@example.com'' = (200, CartArray []) \<and>
   get_cart no_faults shop ''nobody@example.com'' = (200, CartArray [])"
  using get_cart_always_200_array [of no_faults shop "''alice@example.com''"]
  by (simp add: get_cart_def no_faults_def shop_def alice_def shoeA_def shoeB_def findOne_def
      findById_def cleanedCart_def populate_cart_def)

text \<open>
  C2, as stated: an order with an unresolvable line item fails with a NotFound-class
  error. Ordering a product that is not in the catalog is answered 500 'Failed to create
  order', the answer of every other fault of this route; nothing is persisted.
\<close>

theorem create_order_unresolved_counterexample:
  "findOne (users shop) ''alice@example.com'' = Some alice \<and>
   findById (products shop) ''zz'' = None \<and>
   create_order no_faults ''o2'' 7 shop ''alice@example.com''
       [\<lparr>li_productId = ''zz'', li_quantity = 1\<rparr>] 10 =
     ((500, Failure (Some ''Failed to create order'')), shop) \<and>
   error_kind_of (fst (create_order no_faults ''o2'' 7 shop ''alice@example.com''
       [\<lparr>li_productId = ''zz'', li_quantity = 1\<rparr>] 10)) = Some ServerFault \<and>
   error_kind_of (fst (create_order no_faults ''o2'' 7 shop ''alice@example.com''
       [\<lparr>li_productId = ''zz'', li_quantity = 1\<rparr>] 10)) \<noteq> Some NotFound"
  by (simp add: create_order_def no_faults_def shop_def alice_def shoeA_def shoeB_def
      findOne_def findById_def error_kind_of_def)

text \<open>
  C2, amended. For a known user, when some line item's product reference does not
  resolve in the catalog, order creation answers 500 'Failed to create order' (a
  ServerFault-class answer, not 404) and leaves the database as it was. Whatever happens,
  the orders are afterwards the old ones, or the old ones followed by one new order.
  When the store answers, every reference resolves and the new id is free, the answer is
  200 with the new order, which is appended to the orders: it belongs to the user, is
  Pending, carries the submitted total, and its line items are, in order, the submitted
  ones with the product's current name and price and the submitted quantity.
\<close>

theorem create_order_all_or_nothing:
  "(findOne (users d) e = Some u \<and> \<not> flt 0 \<and>
    (\<exists>li \<in> set items. findById (products d) (li_productId li) = None) \<longrightarrow>
      create_order flt fresh now d e items amount =
        ((500, Failure (Some ''Failed to create order'')), d)) \<and>
   (snd (create_order flt fresh now d e items amount) = d \<or>
    (\<exists>order. snd (create_order flt fresh now d e items amount) = d\<lparr>orders := orders d @ [order]\<rparr> \<and>
        fst (create_order flt fresh now d e items amount) = (200, OrderOk (Some order)))) \<and>
   (findOne (users d) e = Some u \<and> (\<forall>k \<le> Suc (length items). \<not> flt k) \<and>
    (\<forall>li \<in> set items. findById (products d) (li_productId li) \<noteq> None) \<and>
    findOrder (orders d) fresh = None \<longrightarrow>
      (\<exists>order.
         create_order flt fresh now d e items amount =
           ((200, OrderOk (Some order)), d\<lparr>orders := orders d @ [order]\<rparr>) \<and>
         o_id order = fresh \<and> userId order = u_id u \<and> totalAmount order = amount \<and>
         status order = ''Pending'' \<and> createdAt order = now \<and>
         list_all2 (\<lambda>li oi. \<exists>product. findById (products d) (li_productId li) = Some product \<and>
                      oi = \<lparr>oi_productId = li_productId li, productName = p_name product,
                            productPrice = p_price product, oi_quantity = li_quantity li\<rparr>)
           items (o_products order)))"
proof -
  have bad: "create_order flt fresh now d e items amount =
               ((500, Failure (Some ''Failed to create order'')), d)"
    if "findOne (users d) e = Some u" and "\<not> flt 0"
      and "\<exists>li \<in> set items. findById (products d) (li_productId li) = None"
    using that resolve_items_unresolved [of items "products d" flt 1]
    by (simp add: create_order_def)
  have atomic: "snd (create_order flt fresh now d e items amount) = d \<or>
    (\<exists>order. snd (create_order flt fresh now d e items amount) = d\<lparr>orders := orders d @ [order]\<rparr> \<and>
        fst (create_order flt fresh now d e items amount) = (200, OrderOk (Some order)))"
    by (simp add: create_order_def Let_def split: option.splits)
  have good: "\<exists>order.
         create_order flt fresh now d e items amount =
           ((200, OrderOk (Some order)), d\<lparr>orders := orders d @ [order]\<rparr>) \<and>
         o_id order = fresh \<and> userId order = u_id u \<and> totalAmount order = amount \<and>
         status order = ''Pending'' \<and> createdAt order = now \<and>
         list_all2 (\<lambda>li oi. \<exists>product. findById (products d) (li_productId li) = Some product \<and>
                      oi = \<lparr>oi_productId = li_productId li, productName = p_name product,
                            productPrice = p_price product, oi_quantity = li_quantity li\<rparr>)
           items (o_products order)"
    if u: "findOne (users d) e = Some u" and f: "\<forall>k \<le> Suc (length items). \<not> flt k"
      and r: "\<forall>li \<in> set items. findById (products d) (li_productId li) \<noteq> None"
      and n: "findOrder (orders d) fresh = None"
  proof -
    from f have "\<forall>j < length items. \<not> flt (1 + j)" by auto
    with r obtain ois where ois: "resolve_items flt 1 (products d) items = Some ois"
      using resolve_items_resolved [of items "products d" flt 1] by blast
    from f have f0: "\<not> flt 0" and fn: "\<not> flt (Suc (length items))" by auto
    have "create_order flt fresh now d e items amount =
            ((200, OrderOk (Some \<lparr>o_id = fresh, userId = u_id u, o_products = ois,
                                  totalAmount = amount, status = ''Pending'', createdAt = now\<rparr>)),
             d\<lparr>orders := orders d @ [\<lparr>o_id = fresh, userId = u_id u, o_products = ois,
                                       totalAmount = amount, status = ''Pending'', createdAt = now\<rparr>]\<rparr>)"
      using u f0 fn ois n by (simp add: create_order_def Let_def findOrder_def)
    then show ?thesis
      using resolve_items_snapshot [OF ois] by simp
  qed
  show ?thesis
    using bad atomic good by blast
qed

theorem create_order_all_or_nothing_witness:
  "findOne (users shop) ''alice@example.com'' = Some alice \<and>
   findById (products shop) ''zz'' = None \<and>
   create_order no_faults ''o2'' 7 shop ''alice@example.com''
       [\<lparr>li_productId = ''a1'', li_quantity = 1\<rparr>, \<lparr>li_productId = ''zz'', li_quantity = 1\<rparr>] 10 =
     ((500, Failure (Some ''Failed to create order'')), shop) \<and>
   (\<exists>order. create_order no_faults ''o2'' 7 shop ''alice@example.com''
                 [\<lparr>li_productId = ''a1'', li_quantity = 3\<rparr>] 300 =
               ((200, OrderOk (Some order)), shop\<lparr>orders := orders shop @ [order]\<rparr>) \<and>
             status order = ''Pending'' \<and>
             o_products order = [\<lparr>oi_productId = ''a1'', productName = ''Runner'',
                                   productPrice = 100, oi_quantity = 3\<rparr>])"
proof -
  have u: "findOne (users shop) ''alice@example.com'' = Some alice"
    by (simp add: findOne_def shop_def alice_def)
  have z: "findById (products shop) ''zz'' = None"
    by (simp add: findById_def shop_def shoeA_def shoeB_def)
  have a: "findById (products shop) ''a1'' = Some shoeA"
    by (simp add: findById_def shop_def shoeA_def shoeB_def)
  have n: "findOrder (orders shop) ''o2'' = None"
    by (simp add: findOrder_def shop_def order1_def)
  have bad: "create_order no_faults ''o2'' 7 shop ''alice@example.com''
       [\<lparr>li_productId = ''a1'', li_quantity = 1\<rparr>, \<lparr>li_productId = ''zz'', li_quantity = 1\<rparr>] 10 =
     ((500, Failure (Some ''Failed to create order'')), shop)"
    using create_order_all_or_nothing [of shop "''alice@example.com''" alice no_faults
        "[\<lparr>li_productId = ''a1'', li_quantity = 1\<rparr>, \<lparr>li_productId = ''zz'', li_quantity = 1\<rparr>]"
        "''o2''" 7 10] u z
    by (simp add: no_faults_def)
  have good: "\<exists>order. create_order no_faults ''o2'' 7 shop ''alice@example.com''
                   [\<lparr>li_productId = ''a1'', li_quantity = 3\<rparr>] 300 =
                 ((200, OrderOk (Some order)), shop\<lparr>orders := orders shop @ [order]\<rparr>) \<and>
               status order = ''Pending'' \<and>
               o_products order = [\<lparr>oi_productId = ''a1'', productName = ''Runner'',
                                     productPrice = 100, oi_quantity = 3\<rparr>]"
    using create_order_all_or_nothing [of shop "''alice@example.com''" alice no_faults
        "[\<lparr>li_productId = ''a1'', li_quantity = 3\<rparr>]" "''o2''" 7 300] u a n
    by (auto simp: no_faults_def list_all2_Cons1 shoeA_def)
  show ?thesis
    using u z bad good by blast
qed

text \<open>
  C3. The colour predicate is a case-insensitive exact match only for colours without
  regular expression syntax (\<open>list_products_satisfies\<close>). At the query
  \<^verbatim>\<open>GET /products?color=.\<close> the route returns the product whose colour is \<open>x\<close>:
  the dot is read as a pattern.
\<close>

theorem list_products_color_is_a_pattern:
  "p_color shoeB = ''x'' \<and> \<not> ci_equal ''.'' (p_color shoeB) \<and>
   \<not> satisfies (by_color ''.'') shoeB \<and>
   list_products compile no_faults shop (by_color ''.'') = (200, ProductArray [shoeB])"
proof -
  have x: "p_color shoeB = ''x''" and r: "p_color shoeA = ''Red''"
    by (simp_all add: shoeA_def shoeB_def)
  have n: "\<not> ci_equal ''.'' ''x''"
    unfolding ci_equal_def by code_simp
  have s: "\<not> satisfies (by_color ''.'') shoeB"
    using n by (simp add: satisfies_def by_color_def x)
  have f: "build_filter compile (by_color ''.'') =
             Some \<lparr>f_category = None, f_size = None, f_brand = None,
                   f_color = Some (match_whole [AnyChar]), f_rating_gte = None,
                   f_price_gte = None, f_price_lte = None\<rparr>"
    by (simp add: build_filter_def color_filter_def color_regex_def by_color_def truthy_def)
  have "filter (matches \<lparr>f_category = None, f_size = None, f_brand = None,
                           f_color = Some (match_whole [AnyChar]), f_rating_gte = None,
                           f_price_gte = None, f_price_lte = None\<rparr>) (products shop) = [shoeB]"
    by (simp add: matches_def shop_def x r)
  then have "list_products compile no_faults shop (by_color ''.'') = (200, ProductArray [shoeB])"
    by (simp add: list_products_def f no_faults_def)
  with x n s show ?thesis by simp
qed




text \<open>
  C5, as stated: when the store fails, a wishlist read degrades to an empty collection.
  With a store whose every call throws, the wishlist read answers 500 with
  \<^verbatim>\<open>{success: false}\<close>, where the cart read answers 200 with the empty array.
\<close>

theorem get_wishlist_store_failure_counterexample:
  "get_wishlist (\<lambda>k. True) shop ''alice@example.com'' = (500, Failure None) \<and>
   get_wishlist (\<lambda>k. True) shop ''alice@example.com'' \<noteq> (200, ProductArray []) \<and>
   error_kind_of (get_wishlist (\<lambda>k. True) shop ''alice@example.com'') = Some ServerFault \<and>
   get_cart (\<lambda>k. True) shop ''alice@example.com'' = (200, CartArray [])"
  by (simp add: get_wishlist_def get_cart_def error_kind_of_def)

text \<open>
  C5, amended. A wishlist read whose store call throws reports the fault: it answers 500
  with \<^verbatim>\<open>{success: false}\<close>, for every database and email. An unknown email is
  answered 404. Otherwise the answer is 200 with the products the stored references
  resolve to, in stored order, dangling references left out.
\<close>

theorem get_wishlist_reports_store_failure:
  "(flt 0 \<longrightarrow> get_wishlist flt d e = (500, Failure None) \<and>
               error_kind_of (get_wishlist flt d e) = Some ServerFault) \<and>
   (\<not> flt 0 \<and> findOne (users d) e = None \<longrightarrow>
      get_wishlist flt d e = (404, Failure (Some ''User not found''))) \<and>
   (\<not> flt 0 \<and> findOne (users d) e = Some u \<longrightarrow>
      get_wishlist flt d e = (200, ProductArray (populate_wishlist (products d) (u_wishlist u))) \<and>
      map p_id (populate_wishlist (products d) (u_wishlist u)) =
        filter (\<lambda>i. findById (products d) i \<noteq> None) (u_wishlist u) \<and>
      set (populate_wishlist (products d) (u_wishlist u)) \<subseteq> set (products d))"
  using populate_wishlist_ids [of "products d" "u_wishlist u"]
    populate_wishlist_current [of "products d" "u_wishlist u"]
  by (simp add: get_wishlist_def error_kind_of_def)

theorem get_wishlist_reports_store_failure_witness:
  "get_wishlist (\<lambda>k. True) shop ''alice@example.com'' = (500, Failure None) \<and>
   get_wishlist no_faults shop ''nobody@example.com'' = (404, Failure (Some ''User not found'')) \<and>
   findOne (users shop) ''alice@example.com'' = Some alice \<and>
   get_wishlist no_faults shop ''alice@example.com'' = (200, ProductArray [shoeA])"
proof -
  have u: "findOne (users shop) ''alice@example.com'' = Some alice"
    by (simp add: findOne_def shop_def alice_def)
  have n: "findOne (users shop) ''nobody@example.com'' = None"
    by (simp add: findOne_def shop_def alice_def)
  have w: "populate_wishlist (products shop) (u_wishlist alice) = [shoeA]"
    by (simp add: populate_wishlist_def findById_def shop_def alice_def shoeA_def shoeB_def)
  show ?thesis
    using get_wishlist_reports_store_failure [of "\<lambda>k. True" shop "''alice@example.com''" alice]
      get_wishlist_reports_store_failure [of no_faults shop "''nobody@example.com''" alice]
      get_wishlist_reports_store_failure [of no_faults shop "''alice@example.com''" alice]
      u n
    by (simp add: w no_faults_def)
qed

text \<open>
  C6. The refusals are as claimed (\<open>login_refusals\<close>), but the first login is never
  reported. Bob has just signed up and logs in for the first time: the answer carries an
  undefined \<open>isNewUser\<close>, and nothing is stored, so every later login is answered the
  same.
\<close>

theorem login_first_login_unreported:
  "findOne (users shop) ''bob@example.com'' = None \<and>
   findOne (users with_bob) ''bob@example.com'' =
     Some \<lparr>u_id = ''u2'', u_name = ''Bob'', u_email = ''bob@example.com'',
           u_password = ''hash:pw'', u_role = ''user'', u_wishlist = [], u_cart = Some []\<rparr> \<and>
   login demo_compare no_faults with_bob ''bob@example.com'' ''pw'' ''user'' =
     ((200, LoginOk ''user'' None), with_bob)"
proof -
  have b: "with_bob = shop\<lparr>users := [alice,
      \<lparr>u_id = ''u2'', u_name = ''Bob'', u_email = ''bob@example.com'',
        u_password = ''hash:pw'', u_role = ''user'', u_wishlist = [], u_cart = Some []\<rparr>]\<rparr>"
    by (simp add: with_bob_def signup_def demo_hash_def no_faults_def shop_def alice_def
        findOne_def Let_def)
  show ?thesis
    unfolding b
    by (simp add: login_def isFirstLogin_def demo_compare_def demo_hash_def no_faults_def
        shop_def alice_def findOne_def Let_def)
qed

text \<open>
  C7, as stated: a failure of the name push to the user record does not fail the profile
  write reported to the caller. With a store whose third call (\<^verbatim>\<open>User.updateOne\<close>)
  throws, the caller is answered 500 'Server error', although the profile is stored.
\<close>

theorem put_profile_sync_failure_counterexample:
  "put_profile (demo_env\<lparr>env_flt := (\<lambda>k. k = 2)\<rparr>) shop ''alice@example.com'' ''Alice B'' ''555''
       ''1 Main St'' =
     ((500, Failure (Some ''Server error'')),
      shop\<lparr>profiles := [\<lparr>pf_name = ''Alice B'', pf_email = ''alice@example.com'',
                           pf_phone = ''555'', pf_address = ''1 Main St''\<rparr>]\<rparr>)"
  by (simp add: put_profile_def findProfile_def shop_def demo_env_def demo_decode_def Let_def)

text \<open>
  C7, amended. The email is the decoded path parameter. If the decoding, the profile
  lookup or the profile save throws, the answer is 500 'Server error' and nothing is
  written. Otherwise the profile is written: when no profile has the email, one with the
  email and the submitted name, phone and address is appended; when one has, the first
  such profile gets the submitted name, phone and address; no other profile, no product
  and no order changes. The name is then written to the user record, in the same try
  block. If that write succeeds, the answer is 200 with the written profile, the first
  user with the email has the new name and no other user changes; when no user has the
  email, no user changes and the answer is still 200. If that write throws, the answer
  is 500 'Server error': the failure is reported to the caller, the profile stays
  written (no rollback) and no user changes.
\<close>

theorem put_profile_then_sync_name:
  "(env_decode ev param = None \<or> env_flt ev 0 \<or> env_flt ev 1 \<longrightarrow>
      put_profile ev d param n ph a = ((500, Failure (Some ''Server error'')), d)) \<and>
   (env_decode ev param = Some e \<and> \<not> env_flt ev 0 \<and> \<not> env_flt ev 1 \<longrightarrow>
      ((findProfile (profiles d) e = None \<and>
        profiles (snd (put_profile ev d param n ph a)) =
          profiles d @ [\<lparr>pf_name = n, pf_email = e, pf_phone = ph, pf_address = a\<rparr>] \<and>
        (env_flt ev 2 \<or> fst (put_profile ev d param n ph a) =
           (200, ProfileOk (Some ''Profile updated successfully'')
                   \<lparr>pf_name = n, pf_email = e, pf_phone = ph, pf_address = a\<rparr>))) \<or>
       (\<exists>before old after.
          profiles d = before @ old # after \<and> pf_email old = e \<and>
          (\<forall>x \<in> set before. pf_email x \<noteq> e) \<and>
          profiles (snd (put_profile ev d param n ph a)) =
            before @ old\<lparr>pf_name := n, pf_phone := ph, pf_address := a\<rparr> # after \<and>
          (env_flt ev 2 \<or> fst (put_profile ev d param n ph a) =
             (200, ProfileOk (Some ''Profile updated successfully'')
                     (old\<lparr>pf_name := n, pf_phone := ph, pf_address := a\<rparr>))))) \<and>
      products (snd (put_profile ev d param n ph a)) = products d \<and>
      orders (snd (put_profile ev d param n ph a)) = orders d \<and>
      (\<not> env_flt ev 2 \<longrightarrow>
         (findOne (users d) e = None \<and> users (snd (put_profile ev d param n ph a)) = users d) \<or>
         (\<exists>before u after.
            users d = before @ u # after \<and> u_email u = e \<and> (\<forall>x \<in> set before. u_email x \<noteq> e) \<and>
            users (snd (put_profile ev d param n ph a)) = before @ u\<lparr>u_name := n\<rparr> # after)) \<and>
      (env_flt ev 2 \<longrightarrow>
         fst (put_profile ev d param n ph a) = (500, Failure (Some ''Server error'')) \<and>
         users (snd (put_profile ev d param n ph a)) = users d))"
proof (intro conjI impI; (elim conjE)?)
  assume "env_decode ev param = None \<or> env_flt ev 0 \<or> env_flt ev 1"
  then show "put_profile ev d param n ph a = ((500, Failure (Some ''Server error'')), d)"
    by (rule put_profile_early_failure)
next
  show "products (snd (put_profile ev d param n ph a)) = products d"
    by (simp add: put_profile_frame)
next
  show "orders (snd (put_profile ev d param n ph a)) = orders d"
    by (simp add: put_profile_frame)
next
  assume "env_decode ev param = Some e" "\<not> env_flt ev 0" "\<not> env_flt ev 1" "env_flt ev 2"
  then show "fst (put_profile ev d param n ph a) = (500, Failure (Some ''Server error''))"
    and "users (snd (put_profile ev d param n ph a)) = users d"
    using put_profile_sync_failed [of ev param e d n ph a] by simp_all
qed (rule put_profile_profiles put_profile_users; assumption)+

theorem put_profile_then_sync_name_witness:
  "env_decode demo_env ''alice@example.com'' = Some ''alice@example.com'' \<and>
   env_decode demo_env ''%'' = None \<and>
   put_profile demo_env shop ''%'' ''Alice B'' ''555'' ''1 Main St'' =
     ((500, Failure (Some ''Server error'')), shop) \<and>
   users (snd (put_profile demo_env shop ''alice@example.com'' ''Alice B'' ''555'' ''1 Main St'')) =
     [alice\<lparr>u_name := ''Alice B''\<rparr>] \<and>
   profiles (snd (put_profile demo_env shop ''alice@example.com'' ''Alice B'' ''555'' ''1 Main St'')) =
     [\<lparr>pf_name = ''Alice B'', pf_email = ''alice@example.com'', pf_phone = ''555'',
       pf_address = ''1 Main St''\<rparr>] \<and>
   users (snd (put_profile demo_env shop ''nobody@example.com'' ''N'' ''1'' ''2'')) = users shop \<and>
   fst (put_profile (demo_env\<lparr>env_flt := (\<lambda>k. k = 2)\<rparr>) shop ''alice@example.com'' ''Alice B''
          ''555'' ''1 Main St'') = (500, Failure (Some ''Server error'')) \<and>
   users (snd (put_profile (demo_env\<lparr>env_flt := (\<lambda>k. k = 2)\<rparr>) shop ''alice@example.com''
                 ''Alice B'' ''555'' ''1 Main St'')) = users shop"
proof -
  have dec: "env_decode demo_env ''alice@example.com'' = Some ''alice@example.com''"
    "env_decode demo_env ''nobody@example.com'' = Some ''nobody@example.com''"
    "env_decode demo_env ''%'' = None"
    "env_decode (demo_env\<lparr>env_flt := (\<lambda>k. k = 2)\<rparr>) ''alice@example.com'' = Some ''alice@example.com''"
    by (simp_all add: demo_env_def demo_decode_def)
  have flt: "\<not> env_flt demo_env 0" "\<not> env_flt demo_env 1" "\<not> env_flt demo_env 2"
    "\<not> env_flt (demo_env\<lparr>env_flt := (\<lambda>k. k = 2)\<rparr>) 0"
    "\<not> env_flt (demo_env\<lparr>env_flt := (\<lambda>k. k = 2)\<rparr>) 1"
    "env_flt (demo_env\<lparr>env_flt := (\<lambda>k. k = 2)\<rparr>) 2"
    by (simp_all add: demo_env_def no_faults_def)
  have us: "users shop = [alice]" and ps: "profiles shop = []"
    and ae: "u_email alice = ''alice@example.com''"
    and nobody: "findOne (users shop) ''nobody@example.com'' = None"
    by (simp_all add: shop_def alice_def findOne_def)
  have bad: "put_profile demo_env shop ''%'' ''Alice B'' ''555'' ''1 Main St'' =
               ((500, Failure (Some ''Server error'')), shop)"
    using put_profile_then_sync_name [of demo_env "''%''" shop "''Alice B''" "''555''" "''1 Main St''"]
      dec(3)
    by blast
  have ok: "users (snd (put_profile demo_env shop ''alice@example.com'' ''Alice B'' ''555''
                          ''1 Main St'')) = [alice\<lparr>u_name := ''Alice B''\<rparr>] \<and>
            profiles (snd (put_profile demo_env shop ''alice@example.com'' ''Alice B'' ''555''
                          ''1 Main St'')) =
              [\<lparr>pf_name = ''Alice B'', pf_email = ''alice@example.com'', pf_phone = ''555'',
                pf_address = ''1 Main St''\<rparr>]"
    using put_profile_then_sync_name [of demo_env "''alice@example.com''" shop "''Alice B''"
        "''555''" "''1 Main St''" "''alice@example.com''"] dec(1) flt(1-3)
    by (auto simp: us ps ae findOne_def Cons_eq_append_conv)
  have none: "users (snd (put_profile demo_env shop ''nobody@example.com'' ''N'' ''1'' ''2'')) =
                users shop"
    using put_profile_then_sync_name [of demo_env "''nobody@example.com''" shop "''N''" "''1''"
        "''2''" "''nobody@example.com''"] dec(2) flt(1-3) nobody
    by (auto simp: us ae Cons_eq_append_conv)
  have ko: "fst (put_profile (demo_env\<lparr>env_flt := (\<lambda>k. k = 2)\<rparr>) shop ''alice@example.com''
                   ''Alice B'' ''555'' ''1 Main St'') = (500, Failure (Some ''Server error'')) \<and>
            users (snd (put_profile (demo_env\<lparr>env_flt := (\<lambda>k. k = 2)\<rparr>) shop
                          ''alice@example.com'' ''Alice B'' ''555'' ''1 Main St'')) = users shop"
    using put_profile_then_sync_name [of "demo_env\<lparr>env_flt := (\<lambda>k. k = 2)\<rparr>"
        "''alice@example.com''" shop "''Alice B''" "''555''" "''1 Main St''" "''alice@example.com''"]
      dec(4) flt(4-6)
    by blast
  show ?thesis
    using dec(1,3) bad ok none ko by blast
qed

text \<open>
  C8, as stated: removing a product that is not in the cart of an existing user is a
  no-op on that cart, and both removals return the resulting collection. Alice's stored
  cart holds a dangling entry; removing a product that is not in her cart rewrites the
  stored cart without that entry. And the wishlist removal answers with a message only.
\<close>

theorem remove_non_member_counterexample:
  "findOne (users shop) ''alice@example.com'' = Some alice \<and>
   ''b2'' \<notin> productId ` set (cart_of alice) \<and>
   snd (remove_from_cart no_faults shop ''alice@example.com'' ''b2'') \<noteq> shop \<and>
   findOne (users (snd (remove_from_cart no_faults shop ''alice@example.com'' ''b2''))) ''alice@example.com''
     = Some (alice\<lparr>u_cart := Some [\<lparr>productId = ''a1'', quantity = 2\<rparr>]\<rparr>) \<and>
   fst (remove_from_wishlist no_faults shop ''alice@example.com'' ''b2'')
     = (200, SuccessMsg ''Product removed from wishlist'')"
  by (simp add: remove_from_cart_def remove_from_wishlist_def no_faults_def shop_def alice_def
      shoeA_def shoeB_def findOne_def findById_def cart_of_def populate_cart_def depopulate_def
      save_cart_def Let_def)

text \<open>
  C8, amended. For an existing user and a store that answers: removing a product that is
  not in the wishlist leaves the whole database as it was and answers 200 with success
  and a message (no collection). Removing a product that is not in the cart answers 200
  with the view of the cart, keeps every entry that resolves and drops the dangling ones
  from the stored cart; the database is unchanged when the stored cart has no dangling
  entry. For either route, any product and any store behaviour, removing a second time
  gives the answer and the database of the first removal.
\<close>

theorem remove_non_member:
  assumes "findOne (users d) e = Some u" and "\<not> flt 0" and "\<not> flt 1"
  shows "(p \<notin> set (u_wishlist u) \<longrightarrow>
            remove_from_wishlist flt d e p = ((200, SuccessMsg ''Product removed from wishlist''), d)) \<and>
         (p \<notin> productId ` set (cart_of u) \<longrightarrow>
            remove_from_cart flt d e p =
              ((200, CartArray (cleanedCart (populate_cart (products d) (cart_of u)))),
               save_cart e (filter (resolves (products d)) (cart_of u)) d)) \<and>
         (p \<notin> productId ` set (cart_of u) \<and> u_cart u \<noteq> None \<and>
          (\<forall>it \<in> set (cart_of u). resolves (products d) it) \<longrightarrow>
            snd (remove_from_cart flt d e p) = d) \<and>
         remove_from_wishlist flt (snd (remove_from_wishlist flt d e p)) e p =
           remove_from_wishlist flt d e p \<and>
         remove_from_cart flt (snd (remove_from_cart flt d e p)) e p = remove_from_cart flt d e p"
proof -
  have cart: "remove_from_cart flt d e p =
                ((200, CartArray (cleanedCart (populate_cart (products d) (cart_of u)))),
                 save_cart e (filter (resolves (products d)) (cart_of u)) d)"
    if "p \<notin> productId ` set (cart_of u)"
    using assms that
    by (simp add: remove_from_cart_def Let_def depopulate_kept cleaned_kept filter_not_member
        filter_ne_not_member)
  have same: "snd (remove_from_cart flt d e p) = d"
    if np: "p \<notin> productId ` set (cart_of u)" and c: "u_cart u \<noteq> None"
      and r: "\<forall>it \<in> set (cart_of u). resolves (products d) it"
  proof -
    from r have "filter (resolves (products d)) (cart_of u) = cart_of u"
      by (simp add: filter_id_conv)
    moreover from c have "u\<lparr>u_cart := Some (cart_of u)\<rparr> = u"
      by (auto simp: cart_of_def)
    then have "update_one (\<lambda>x. u_email x = e) (\<lambda>x. x\<lparr>u_cart := Some (cart_of u)\<rparr>) (users d) = users d"
      using assms(1) unfolding findOne_def by (intro update_one_fixed [where x = u]) simp_all
    ultimately show ?thesis
      using cart [OF np] by (simp add: save_cart_def)
  qed
  show ?thesis
    using cart same remove_from_wishlist_non_member [OF assms] remove_from_wishlist_twice
      remove_from_cart_twice
    by blast
qed

theorem remove_non_member_witness:
  "findOne (users shop) ''alice@example.com'' = Some alice \<and>
   ''b2'' \<notin> set (u_wishlist alice) \<and> ''b2'' \<notin> productId ` set (cart_of alice) \<and>
   remove_from_wishlist no_faults shop ''alice@example.com'' ''b2'' =
     ((200, SuccessMsg ''Product removed from wishlist''), shop) \<and>
   fst (remove_from_cart no_faults shop ''alice@example.com'' ''b2'') =
     (200, CartArray [\<lparr>cl_id = ''a1'', cl_name = ''Runner'', cl_price = 100, cl_quantity = 2\<rparr>])"
proof -
  have u: "findOne (users shop) ''alice@example.com'' = Some alice"
    by (simp add: findOne_def shop_def alice_def)
  have w: "''b2'' \<notin> set (u_wishlist alice)" and c: "''b2'' \<notin> productId ` set (cart_of alice)"
    by (simp_all add: alice_def cart_of_def)
  have v: "cleanedCart (populate_cart (products shop) (cart_of alice)) =
             [\<lparr>cl_id = ''a1'', cl_name = ''Runner'', cl_price = 100, cl_quantity = 2\<rparr>]"
    by (simp add: cleanedCart_def populate_cart_def findById_def shop_def shoeA_def shoeB_def
        cart_of_def alice_def)
  have f: "\<not> no_faults 0" "\<not> no_faults 1"
    by (simp_all add: no_faults_def)
  show ?thesis
    using remove_non_member [OF u f, of "''b2''"] u w c v by simp
qed



text \<open>
  C10. For an existing user (and a store that answers), removing a product from the cart
  keeps exactly the entries that resolve in the catalog and are not the named product,
  saves that list as the user's cart, and answers with its view. So every dangling entry
  leaves the stored cart too, whichever product was named.
\<close>

theorem remove_from_cart_prunes_dangling:
  assumes "findOne (users d) e = Some u" and "\<not> flt 0" and "\<not> flt 1"
  shows "remove_from_cart flt d e p =
           ((200, CartArray (cleanedCart (populate_cart (products d)
                               (filter (\<lambda>it. productId it \<noteq> p) (cart_of u))))),
            save_cart e (filter (\<lambda>it. resolves (products d) it \<and> productId it \<noteq> p) (cart_of u)) d) \<and>
         findOne (users (snd (remove_from_cart flt d e p))) e =
           Some (u\<lparr>u_cart := Some (filter (\<lambda>it. resolves (products d) it \<and> productId it \<noteq> p)
                                      (cart_of u))\<rparr>)"
  using assms
  by (simp add: remove_from_cart_def Let_def findOne_save_cart depopulate_kept cleaned_kept)

theorem remove_from_cart_prunes_dangling_witness:
  "findOne (users shop) ''alice@example.com'' = Some alice \<and>
   cart_of alice = [\<lparr>productId = ''a1'', quantity = 2\<rparr>, \<lparr>productId = ''gone'', quantity = 1\<rparr>] \<and>
   findOne (users (snd (remove_from_cart no_faults shop ''alice@example.com'' ''b2''))) ''alice@example.com'' =
     Some (alice\<lparr>u_cart := Some [\<lparr>productId = ''a1'', quantity = 2\<rparr>]\<rparr>)"
proof -
  have u: "findOne (users shop) ''alice@example.com'' = Some alice"
    by (simp add: findOne_def shop_def alice_def)
  have k: "filter (\<lambda>it. resolves (products shop) it \<and> productId it \<noteq> ''b2'') (cart_of alice) =
             [\<lparr>productId = ''a1'', quantity = 2\<rparr>]"
    by (simp add: resolves_def findById_def shop_def shoeA_def shoeB_def cart_of_def alice_def)
  have c: "cart_of alice = [\<lparr>productId = ''a1'', quantity = 2\<rparr>, \<lparr>productId = ''gone'', quantity = 1\<rparr>]"
    by (simp add: cart_of_def alice_def)
  have "findOne (users (snd (remove_from_cart no_faults shop ''alice@example.com'' ''b2''))) ''alice@example.com'' =
          Some (alice\<lparr>u_cart := Some [\<lparr>productId = ''a1'', quantity = 2\<rparr>]\<rparr>)"
    using remove_from_cart_prunes_dangling [OF u, of no_faults "''b2''", THEN conjunct2, unfolded k]
    by (simp add: no_faults_def)
  with u c show ?thesis by simp
qed

end
